theory Spec2Isabelle
  imports Complex_Main
begin

section \<open>Connection state: frontend/src/App.js\<close>

text \<open>
  The component \<open>App\<close> keeps four boolean pieces of React state that describe the
  channel: \<open>isConnected\<close>, \<open>showConnectionModal\<close>, \<open>isAttemptingReconnect\<close> and
  \<open>serverIssueDetected\<close>. (\<open>marketData\<close> and \<open>lastUpdate\<close> are written by the same
  handlers but never read by them; they are not part of this record.)
\<close>

record app_state =
  isConnected :: bool
  showConnectionModal :: bool
  isAttemptingReconnect :: bool
  serverIssueDetected :: bool

text \<open>The \<open>useState\<close> initial values.\<close>

definition initial_state :: app_state where
  "initial_state =
     \<lparr>isConnected = False, showConnectionModal = True,
      isAttemptingReconnect = False, serverIssueDetected = False\<rparr>"

text \<open>
  The module-level variable \<open>socket\<close> belongs to socket.io. The handlers only read whether
  it is defined and its \<open>connected\<close> property, so it is passed in as \<open>bool option\<close>:
  \<open>None\<close> when \<open>socket\<close> is undefined, \<open>Some c\<close> when it is defined with
  \<open>socket.connected = c\<close>. What a handler asks of the socket is returned as a list of
  calls.
\<close>

datatype socket_call = SocketDisconnect | SocketOff | SocketCreate | SocketConnect

definition connectSocket :: "bool option \<Rightarrow> app_state \<Rightarrow> app_state \<times> socket_call list" where
  "connectSocket socket s =
     (s\<lparr>showConnectionModal := True, isAttemptingReconnect := True\<rparr>,
      (if socket = Some True then [SocketDisconnect] else []) @
      (if socket \<noteq> None then [SocketOff] else []) @
      [SocketCreate, SocketConnect])"

definition on_connect :: "app_state \<Rightarrow> app_state" where
  "on_connect s =
     s\<lparr>isConnected := True, showConnectionModal := False,
       isAttemptingReconnect := False, serverIssueDetected := False\<rparr>"

definition on_disconnect :: "string \<Rightarrow> app_state \<Rightarrow> app_state" where
  "on_disconnect reason s =
     (let s1 = s\<lparr>isConnected := False, showConnectionModal := True\<rparr> in
      if reason = ''io client disconnect''
      then s1\<lparr>isAttemptingReconnect := False, serverIssueDetected := False\<rparr>
      else
        (let s2 = s1\<lparr>isAttemptingReconnect := True\<rparr> in
         if reason = ''transport error'' \<or> reason = ''ping timeout''
         then s2\<lparr>serverIssueDetected := True\<rparr>
         else s2))"

definition on_connect_error :: "app_state \<Rightarrow> app_state" where
  "on_connect_error s =
     s\<lparr>isConnected := False, showConnectionModal := True,
       isAttemptingReconnect := True, serverIssueDetected := True\<rparr>"

definition on_reconnect_attempt :: "app_state \<Rightarrow> app_state" where
  "on_reconnect_attempt s =
     s\<lparr>isAttemptingReconnect := True, showConnectionModal := True\<rparr>"

definition on_reconnect_failed :: "app_state \<Rightarrow> app_state" where
  "on_reconnect_failed s =
     s\<lparr>isAttemptingReconnect := False, serverIssueDetected := True\<rparr>"

text \<open>
  The \<open>market_data\<close> handler; the argument says whether \<open>data && data.data\<close> is truthy.
\<close>

definition on_market_data :: "bool \<Rightarrow> app_state \<Rightarrow> app_state" where
  "on_market_data valid s =
     (if valid
      then s\<lparr>isConnected := True, showConnectionModal := False,
             isAttemptingReconnect := False\<rparr>
      else s)"

definition handleManualReconnect ::
    "bool option \<Rightarrow> app_state \<Rightarrow> app_state \<times> socket_call list" where
  "handleManualReconnect socket s =
     (let s1 = s\<lparr>serverIssueDetected := False\<rparr> in
      if socket = Some False
      then (s1\<lparr>showConnectionModal := True, isAttemptingReconnect := True\<rparr>,
            [SocketConnect])
      else if socket = None then connectSocket socket s1
      else (s1, []))"

text \<open>
  \<open>handleRefresh\<close>: the argument says whether the fetch resolved with
  \<open>status === 'success'\<close> and a truthy \<open>data\<close>; every other outcome (bad status, HTTP
  error, rejected promise) takes the same two assignments.
\<close>

definition handleRefresh :: "bool \<Rightarrow> app_state \<Rightarrow> app_state" where
  "handleRefresh ok s =
     (if ok then s\<lparr>isConnected := True, showConnectionModal := False\<rparr>
      else s\<lparr>isConnected := False, showConnectionModal := True\<rparr>)"

text \<open>Everything that can change the four flags, as one event type.\<close>

datatype event =
    Mount "bool option"
  | Connect
  | Disconnect string
  | ConnectError
  | ReconnectAttempt
  | ReconnectFailed
  | MarketData bool
  | ManualReconnect "bool option"
  | Refresh bool

fun step :: "app_state \<Rightarrow> event \<Rightarrow> app_state" where
  "step s (Mount socket) = fst (connectSocket socket s)"
| "step s Connect = on_connect s"
| "step s (Disconnect reason) = on_disconnect reason s"
| "step s ConnectError = on_connect_error s"
| "step s ReconnectAttempt = on_reconnect_attempt s"
| "step s ReconnectFailed = on_reconnect_failed s"
| "step s (MarketData valid) = on_market_data valid s"
| "step s (ManualReconnect socket) = fst (handleManualReconnect socket s)"
| "step s (Refresh ok) = handleRefresh ok s"

text \<open>The states passed through by a sequence of events, the starting state first.\<close>

fun trace :: "app_state \<Rightarrow> event list \<Rightarrow> app_state list" where
  "trace s [] = [s]"
| "trace s (e # es) = s # trace (step s e) es"

section \<open>Status surface: frontend/src/components/ConnectionStatus.js\<close>

text \<open>
  What the component renders: \<open>None\<close> for \<open>return null\<close>, otherwise the message, whether
  the loader is present and whether the retry button is present.
\<close>

record view =
  message :: string
  loader :: bool
  retry_button :: bool

definition ConnectionStatus :: "app_state \<Rightarrow> view option" where
  "ConnectionStatus p =
     (if \<not> showConnectionModal p then None
      else
        (let message0 = ''Connecting to server...'';
             message1 =
               (if isConnected p then ''Connected to server successfully!''
                else if serverIssueDetected p then
                  (let m = ''Unable to connect to the server. It might be offline or experiencing issues. Retrying...''
                   in if \<not> isAttemptingReconnect p
                      then ''Failed to connect to the server. It appears to be offline or experiencing issues. Please try again later.''
                      else m)
                else if isAttemptingReconnect p then ''Attempting to reconnect to server...''
                else ''Disconnected from server. Please check your connection or retry.'')
         in Some \<lparr>message = message1,
                  loader = (\<not> isConnected p \<or> isAttemptingReconnect p),
                  retry_button = (\<not> isConnected p)\<rparr>))"

text \<open>
  The names the specification gives to the rendered states, and its table of messages.
  A state of \<open>App\<close> is named through the message that \<open>ConnectionStatus\<close> derives
  from it.
\<close>

datatype conn_state =
  Connecting | Connected | Disconnected | Reconnecting | ServerIssueRetrying | ServerIssueFailed

fun spec_message :: "conn_state \<Rightarrow> string" where
  "spec_message Connecting = ''Connecting to server...''"
| "spec_message Connected = ''Connected to server successfully!''"
| "spec_message Disconnected = ''Disconnected from server. Please check your connection or retry.''"
| "spec_message Reconnecting = ''Attempting to reconnect to server...''"
| "spec_message ServerIssueRetrying = ''Unable to connect to the server. It might be offline or experiencing issues. Retrying...''"
| "spec_message ServerIssueFailed = ''Failed to connect to the server. It appears to be offline or experiencing issues. Please try again later.''"

text \<open>
  The message derivation with the modal forced open, so that every state of \<open>App\<close> has a
  message, and the state name that message stands for in the specification's table.
\<close>

definition derived_message :: "app_state \<Rightarrow> string" where
  "derived_message s =
     (case ConnectionStatus (s\<lparr>showConnectionModal := True\<rparr>) of
        Some v \<Rightarrow> message v | None \<Rightarrow> [])"

definition state_named :: "string \<Rightarrow> conn_state option" where
  "state_named m =
     (if m = spec_message Connecting then Some Connecting
      else if m = spec_message Connected then Some Connected
      else if m = spec_message Disconnected then Some Disconnected
      else if m = spec_message Reconnecting then Some Reconnecting
      else if m = spec_message ServerIssueRetrying then Some ServerIssueRetrying
      else if m = spec_message ServerIssueFailed then Some ServerIssueFailed
      else None)"

definition conn_state_of :: "app_state \<Rightarrow> conn_state option" where
  "conn_state_of s = state_named (derived_message s)"

text \<open>
  The state after the mount effect has called \<open>connectSocket\<close> for the first time, when
  no socket exists yet.
\<close>

definition mounted_state :: app_state where
  "mounted_state = step initial_state (Mount None)"

text \<open>Whether the retry button is on screen.\<close>

definition retry_shown :: "app_state \<Rightarrow> bool" where
  "retry_shown s = (case ConnectionStatus s of Some v \<Rightarrow> retry_button v | None \<Rightarrow> False)"

section \<open>JavaScript values\<close>

text \<open>
  A snapshot arrives as JSON, so a field of a raw quote is \<open>undefined\<close> (the property is
  missing), \<open>null\<close>, a boolean, a number or a string. The characters of a string stand
  for its code units (below 256). Objects and arrays as field values are not modelled.
\<close>

subsection \<open>Numbers: IEEE 754 binary64\<close>

text \<open>
  A number is a finite double, given by its real value (\<open>Fin 0\<close> is \<open>+0\<close>), negative
  zero, one of the two infinities, or NaN.
\<close>

datatype jsnum = Fin real | NegZero | PosInf | NegInf | NaN

datatype jsval = JUndefined | JNull | JBool bool | JNum jsnum | JStr string

text \<open>
  Rounding a real to the nearest double, ties to even. A positive \<open>a\<close> lies in a binade
  whose doubles are the multiples of \<open>2 ^ e\<close>, where \<open>e\<close> is 52 below the exponent of
  \<open>a\<close> and never below -1074 (the subnormal spacing); \<open>a\<close> is rounded to the nearest
  multiple. A result of \<open>2 ^ 1024\<close> or more is infinite; a non-zero value that rounds to
  zero keeps its sign.
\<close>

function bit_length :: "int \<Rightarrow> int" where
  "bit_length n = (if n \<le> 0 then 0 else 1 + bit_length (n div 2))"
  by pat_completeness auto
termination
  by (relation "measure nat") auto

definition pow2 :: "int \<Rightarrow> real" where
  "pow2 e = (if 0 \<le> e then 2 ^ nat e else 1 / 2 ^ nat (- e))"

definition nearest_even :: "int \<Rightarrow> real \<Rightarrow> int" where
  "nearest_even f r =
     (if r < 1 / 2 then f else if 1 / 2 < r then f + 1 else if even f then f else f + 1)"

definition round_half_even :: "real \<Rightarrow> int" where
  "round_half_even y = nearest_even \<lfloor>y\<rfloor> (y - of_int \<lfloor>y\<rfloor>)"

definition ulp_exponent :: "real \<Rightarrow> int" where
  "ulp_exponent a =
     max (- 1074)
       (if 1 \<le> a then bit_length \<lfloor>a\<rfloor> - 53 else - bit_length \<lfloor>1 / a\<rfloor> - 52)"

definition quantise :: "real \<Rightarrow> int \<Rightarrow> real" where
  "quantise a e = of_int (round_half_even (a / pow2 e)) * pow2 e"

definition pack :: "bool \<Rightarrow> real \<Rightarrow> jsnum" where
  "pack negative v =
     (if 2 ^ 1024 \<le> v then (if negative then NegInf else PosInf)
      else if v = 0 then (if negative then NegZero else Fin 0)
      else Fin (if negative then - v else v))"

definition round_double :: "real \<Rightarrow> jsnum" where
  "round_double x =
     (if x = 0 then Fin 0 else pack (x < 0) (quantise \<bar>x\<bar> (ulp_exponent \<bar>x\<bar>)))"

text \<open>The value of a finite number, the sign bit, and the signed zeros and infinities.\<close>

fun num_val :: "jsnum \<Rightarrow> real" where
  "num_val (Fin a) = a"
| "num_val x = 0"

fun negative :: "jsnum \<Rightarrow> bool" where
  "negative (Fin a) = (a < 0)"
| "negative NegZero = True"
| "negative NegInf = True"
| "negative x = False"

definition is_zero :: "jsnum \<Rightarrow> bool" where
  "is_zero x = (x = Fin 0 \<or> x = NegZero)"

definition is_inf :: "jsnum \<Rightarrow> bool" where
  "is_inf x = (x = PosInf \<or> x = NegInf)"

definition signed_zero :: "bool \<Rightarrow> jsnum" where
  "signed_zero neg = (if neg then NegZero else Fin 0)"

definition signed_inf :: "bool \<Rightarrow> jsnum" where
  "signed_inf neg = (if neg then NegInf else PosInf)"

fun num_neg :: "jsnum \<Rightarrow> jsnum" where
  "num_neg (Fin a) = (if a = 0 then NegZero else Fin (- a))"
| "num_neg NegZero = Fin 0"
| "num_neg PosInf = NegInf"
| "num_neg NegInf = PosInf"
| "num_neg NaN = NaN"

text \<open>
  The arithmetic: the exact result, rounded. A difference that is exactly zero is \<open>+0\<close>
  except for \<open>-0 - +0\<close>; the sign of a product or quotient is the exclusive or of the
  signs of the operands.
\<close>

definition num_sub :: "jsnum \<Rightarrow> jsnum \<Rightarrow> jsnum" where
  "num_sub x y =
     (if x = NaN \<or> y = NaN then NaN
      else if x = PosInf then (if y = PosInf then NaN else PosInf)
      else if x = NegInf then (if y = NegInf then NaN else NegInf)
      else if y = PosInf then NegInf
      else if y = NegInf then PosInf
      else if x = NegZero \<and> y = Fin 0 then NegZero
      else round_double (num_val x - num_val y))"

definition num_mul :: "jsnum \<Rightarrow> jsnum \<Rightarrow> jsnum" where
  "num_mul x y =
     (if x = NaN \<or> y = NaN then NaN
      else if is_inf x \<or> is_inf y then
        (if is_zero x \<or> is_zero y then NaN else signed_inf (negative x \<noteq> negative y))
      else if num_val x * num_val y = 0 then signed_zero (negative x \<noteq> negative y)
      else round_double (num_val x * num_val y))"

definition num_div :: "jsnum \<Rightarrow> jsnum \<Rightarrow> jsnum" where
  "num_div x y =
     (if x = NaN \<or> y = NaN then NaN
      else if is_inf x then (if is_inf y then NaN else signed_inf (negative x \<noteq> negative y))
      else if is_inf y then signed_zero (negative x \<noteq> negative y)
      else if is_zero y then (if is_zero x then NaN else signed_inf (negative x \<noteq> negative y))
      else if is_zero x then signed_zero (negative x \<noteq> negative y)
      else round_double (num_val x / num_val y))"

definition num_lt :: "jsnum \<Rightarrow> jsnum \<Rightarrow> bool" where
  "num_lt x y =
     (x \<noteq> NaN \<and> y \<noteq> NaN \<and> x \<noteq> PosInf \<and> y \<noteq> NegInf
      \<and> (x = NegInf \<or> y = PosInf \<or> num_val x < num_val y))"

definition num_gt :: "jsnum \<Rightarrow> jsnum \<Rightarrow> bool" where
  "num_gt x y = num_lt y x"

text \<open>
  Equality of numbers as \<open>===\<close> sees it: NaN is equal to nothing, the two zeros are
  equal.
\<close>

definition num_eq :: "jsnum \<Rightarrow> jsnum \<Rightarrow> bool" where
  "num_eq x y = (x \<noteq> NaN \<and> y \<noteq> NaN \<and> (x = y \<or> (is_zero x \<and> is_zero y)))"

subsection \<open>Strings to numbers\<close>

text \<open>
  The numeric value of a string: the decimal or prefixed literal it spells, rounded to the
  nearest double; NaN if it spells none.
\<close>

definition is_ws :: "char \<Rightarrow> bool" where
  "is_ws c = (c \<in> set [CHR 0x09, CHR 0x0A, CHR 0x0B, CHR 0x0C, CHR 0x0D, CHR 0x20, CHR 0xA0])"

definition trim :: "string \<Rightarrow> string" where
  "trim s = rev (dropWhile is_ws (rev (dropWhile is_ws s)))"

definition digit_of :: "char \<Rightarrow> nat option" where
  "digit_of c =
     (let n = (of_char c :: nat) in
      if 48 \<le> n \<and> n \<le> 57 then Some (n - 48)
      else if 97 \<le> n \<and> n \<le> 102 then Some (n - 87)
      else if 65 \<le> n \<and> n \<le> 70 then Some (n - 55)
      else None)"

fun digits_value :: "nat \<Rightarrow> nat \<Rightarrow> string \<Rightarrow> nat option" where
  "digits_value b acc [] = Some acc"
| "digits_value b acc (c # cs) =
     (case digit_of c of
        None \<Rightarrow> None
      | Some d \<Rightarrow> if d < b then digits_value b (acc * b + d) cs else None)"

definition parse_digits :: "nat \<Rightarrow> string \<Rightarrow> nat option" where
  "parse_digits b cs = (if cs = [] then None else digits_value b 0 cs)"

text \<open>The part before the first character satisfying \<open>P\<close>, and the part after it if there is one.\<close>

definition split_at :: "(char \<Rightarrow> bool) \<Rightarrow> string \<Rightarrow> string \<times> string option" where
  "split_at P cs =
     (let r = dropWhile (\<lambda>c. \<not> P c) cs
      in (takeWhile (\<lambda>c. \<not> P c) cs, if r = [] then None else Some (tl r)))"

definition parse_exponent :: "string \<Rightarrow> int option" where
  "parse_exponent cs =
     (case cs of
        [] \<Rightarrow> None
      | c # r \<Rightarrow>
          if c = CHR ''+'' then map_option int (parse_digits 10 r)
          else if c = CHR ''-'' then map_option (\<lambda>n. - int n) (parse_digits 10 r)
          else map_option int (parse_digits 10 cs))"

definition parse_mantissa :: "string \<Rightarrow> real option" where
  "parse_mantissa cs =
     (case split_at (\<lambda>c. c = CHR ''.'') cs of
        (ip, None) \<Rightarrow> map_option real (parse_digits 10 ip)
      | (ip, Some fp) \<Rightarrow>
          if ip = [] then map_option (\<lambda>n. real n / 10 ^ length fp) (parse_digits 10 fp)
          else if fp = [] then map_option real (parse_digits 10 ip)
          else
            (case (parse_digits 10 ip, parse_digits 10 fp) of
               (Some i, Some f) \<Rightarrow> Some (real i + real f / 10 ^ length fp)
             | _ \<Rightarrow> None))"

definition parse_unsigned_decimal :: "string \<Rightarrow> jsnum option" where
  "parse_unsigned_decimal cs =
     (if cs = ''Infinity'' then Some PosInf
      else
        (case split_at (\<lambda>c. c = CHR ''e'' \<or> c = CHR ''E'') cs of
           (m, None) \<Rightarrow> map_option round_double (parse_mantissa m)
         | (m, Some ex) \<Rightarrow>
             (case (parse_mantissa m, parse_exponent ex) of
                (Some v, Some k) \<Rightarrow>
                  Some (round_double (if 0 \<le> k then v * 10 ^ nat k else v / 10 ^ nat (- k)))
              | _ \<Rightarrow> None)))"

definition parse_decimal :: "string \<Rightarrow> jsnum option" where
  "parse_decimal cs =
     (case cs of
        [] \<Rightarrow> None
      | c # r \<Rightarrow>
          if c = CHR ''+'' then parse_unsigned_decimal r
          else if c = CHR ''-'' then map_option num_neg (parse_unsigned_decimal r)
          else parse_unsigned_decimal cs)"

definition parse_nondecimal :: "string \<Rightarrow> nat option" where
  "parse_nondecimal cs =
     (case cs of
        z # x # r \<Rightarrow>
          if z \<noteq> CHR ''0'' then None
          else if x = CHR ''x'' \<or> x = CHR ''X'' then parse_digits 16 r
          else if x = CHR ''o'' \<or> x = CHR ''O'' then parse_digits 8 r
          else if x = CHR ''b'' \<or> x = CHR ''B'' then parse_digits 2 r
          else None
      | _ \<Rightarrow> None)"

definition StringToNumber :: "string \<Rightarrow> jsnum" where
  "StringToNumber s =
     (let t = trim s in
      if t = [] then Fin 0
      else
        (case parse_nondecimal t of
           Some n \<Rightarrow> round_double (real n)
         | None \<Rightarrow> (case parse_decimal t of Some v \<Rightarrow> v | None \<Rightarrow> NaN)))"

subsection \<open>The operators the reconciliation uses\<close>

fun ToNumber :: "jsval \<Rightarrow> jsnum" where
  "ToNumber JUndefined = NaN"
| "ToNumber JNull = Fin 0"
| "ToNumber (JBool b) = (if b then Fin 1 else Fin 0)"
| "ToNumber (JNum n) = n"
| "ToNumber (JStr s) = StringToNumber s"

fun ToBoolean :: "jsval \<Rightarrow> bool" where
  "ToBoolean JUndefined = False"
| "ToBoolean JNull = False"
| "ToBoolean (JBool b) = b"
| "ToBoolean (JNum n) = (\<not> is_zero n \<and> n \<noteq> NaN)"
| "ToBoolean (JStr s) = (s \<noteq> [])"

text \<open>\<open>typeof v === 'number'\<close>\<close>

fun typeof_number :: "jsval \<Rightarrow> bool" where
  "typeof_number (JNum n) = True"
| "typeof_number v = False"

text \<open>\<open>a - b\<close> and \<open>a / b\<close>\<close>

definition js_sub :: "jsval \<Rightarrow> jsval \<Rightarrow> jsnum" where
  "js_sub a b = num_sub (ToNumber a) (ToNumber b)"

definition js_div :: "jsval \<Rightarrow> jsval \<Rightarrow> jsnum" where
  "js_div a b = num_div (ToNumber a) (ToNumber b)"

text \<open>Strings compare by code units, a proper prefix being smaller.\<close>

fun str_lt :: "string \<Rightarrow> string \<Rightarrow> bool" where
  "str_lt [] [] = False"
| "str_lt [] (y # ys) = True"
| "str_lt (x # xs) [] = False"
| "str_lt (x # xs) (y # ys) =
     ((of_char x :: nat) < of_char y \<or> (x = y \<and> str_lt xs ys))"

text \<open>\<open>a < b\<close> and \<open>a > b\<close>: two strings compare as strings, anything else as numbers.\<close>

fun js_lt :: "jsval \<Rightarrow> jsval \<Rightarrow> bool" where
  "js_lt (JStr s) (JStr t) = str_lt s t"
| "js_lt a b = num_lt (ToNumber a) (ToNumber b)"

definition js_gt :: "jsval \<Rightarrow> jsval \<Rightarrow> bool" where
  "js_gt a b = js_lt b a"

text \<open>\<open>a === b\<close> and \<open>a !== b\<close>\<close>

fun strict_eq :: "jsval \<Rightarrow> jsval \<Rightarrow> bool" where
  "strict_eq JUndefined JUndefined = True"
| "strict_eq JNull JNull = True"
| "strict_eq (JBool a) (JBool b) = (a = b)"
| "strict_eq (JNum x) (JNum y) = num_eq x y"
| "strict_eq (JStr s) (JStr t) = (s = t)"
| "strict_eq a b = False"

definition strict_neq :: "jsval \<Rightarrow> jsval \<Rightarrow> bool" where
  "strict_neq a b = (\<not> strict_eq a b)"

section \<open>Snapshot reconciliation: the effect in MarketDataTable\<close>

text \<open>
  A raw quote, read through \<open>item.symbol\<close>, \<open>item.ltp\<close> and so on; a property the payload
  does not have reads as \<open>undefined\<close>.
\<close>

record raw_quote =
  item_symbol :: jsval
  item_ltp :: jsval
  item_open :: jsval
  item_high :: jsval
  item_low :: jsval
  item_close :: jsval
  item_volume :: jsval
  item_timestamp :: jsval

text \<open>
  A value of the snapshot object is either \<open>null\<close> or \<open>undefined\<close>, on which reading a
  property throws a TypeError, or something whose properties can be read (a primitive
  value reads as a quote with every property \<open>undefined\<close>).
\<close>

datatype raw_item = Nullish | Item raw_quote

datatype js_error = TypeError

datatype signal = BUY | SELL | HOLD

datatype direction = up | down

text \<open>
  An entry of \<open>processedData\<close>. The field \<open>open\<close> of the source is \<open>open_price\<close> here.
  A direction is \<open>'up'\<close>, \<open>'down'\<close> or \<open>null\<close>.
\<close>

record row =
  symbol :: jsval
  ltp :: jsnum
  open_price :: jsnum
  high :: jsnum
  low :: jsnum
  close :: jsnum
  volume :: jsnum
  change :: jsnum
  change_percent :: jsnum
  trading_signal :: signal
  timestamp :: jsval
  ltp_changed :: bool
  open_changed :: bool
  high_changed :: bool
  low_changed :: bool
  close_changed :: bool
  volume_changed :: bool
  signal_changed :: bool
  ltp_direction :: "direction option"
  open_direction :: "direction option"
  high_direction :: "direction option"
  low_direction :: "direction option"
  close_direction :: "direction option"
  volume_direction :: "direction option"
  prev_ltp :: jsnum
  prev_open :: jsnum
  prev_high :: jsnum
  prev_low :: jsnum
  prev_close :: jsnum
  prev_volume :: jsnum

text \<open>
  \<open>prevItem = prevDataRef.current[key] || {}\<close> is a \<open>row option\<close>: \<open>None\<close> is the empty
  object, whose every property reads as \<open>undefined\<close>.
\<close>

definition prev_value :: "(row \<Rightarrow> jsnum) \<Rightarrow> row option \<Rightarrow> jsval" where
  "prev_value f prevItem = (case prevItem of None \<Rightarrow> JUndefined | Some r \<Rightarrow> JNum (f r))"

text \<open>The body of the loop over \<open>changes\<close>: the pair \<open>{ changed, direction }\<close>.\<close>

definition processedChange :: "jsval \<Rightarrow> jsval \<Rightarrow> bool \<times> direction option" where
  "processedChange v prev =
     (let changed = strict_neq v prev;
          direction = (if changed then Some (if js_gt v prev then up else down) else None)
      in (changed, direction))"

text \<open>\<open>typeof v === 'number' ? v : 0\<close>\<close>

definition number_or_zero :: "jsval \<Rightarrow> jsnum" where
  "number_or_zero v = (if typeof_number v then (case v of JNum n \<Rightarrow> n | _ \<Rightarrow> Fin 0) else Fin 0)"

text \<open>\<open>prevItem.f || 0\<close>\<close>

definition prev_or_zero :: "(row \<Rightarrow> jsnum) \<Rightarrow> row option \<Rightarrow> jsnum" where
  "prev_or_zero f prevItem =
     (case prevItem of
        None \<Rightarrow> Fin 0
      | Some r \<Rightarrow> if ToBoolean (JNum (f r)) then f r else Fin 0)"

text \<open>
  One iteration of the loop over \<open>Object.entries(marketData)\<close>: the record stored under
  \<open>processedData[key]\<close>. \<open>now\<close> is what \<open>new Date().toISOString()\<close> returns at that
  moment.
\<close>

definition process_item :: "string \<Rightarrow> row option \<Rightarrow> raw_quote \<Rightarrow> row" where
  "process_item now prevItem item =
     (let c_ltp = processedChange (item_ltp item) (prev_value ltp prevItem);
          c_open = processedChange (item_open item) (prev_value open_price prevItem);
          c_high = processedChange (item_high item) (prev_value high prevItem);
          c_low = processedChange (item_low item) (prev_value low prevItem);
          c_close = processedChange (item_close item) (prev_value close prevItem);
          c_volume = processedChange (item_volume item) (prev_value volume prevItem);
          change' = js_sub (item_ltp item) (item_close item);
          change_percent' = num_mul (js_div (JNum change') (item_close item)) (Fin 100);
          shortTermTrend = (if js_gt (item_ltp item) (item_close item) then up else down);
          volatility =
            num_mul (js_div (JNum (js_sub (item_high item) (item_low item))) (item_close item))
              (Fin 100);
          trading_signal' =
            (if shortTermTrend = up \<and> num_gt change_percent' (Fin 1) \<and> num_lt volatility (Fin 5)
             then BUY
             else if shortTermTrend = down \<and> num_lt change_percent' (Fin (- 1))
                       \<and> num_lt volatility (Fin 5)
             then SELL
             else HOLD);
          signal_changed' =
            (case prevItem of None \<Rightarrow> True | Some r \<Rightarrow> trading_signal r \<noteq> trading_signal')
      in \<lparr>symbol = (if ToBoolean (item_symbol item) then item_symbol item else JStr ''UNKNOWN''),
          ltp = number_or_zero (item_ltp item),
          open_price = number_or_zero (item_open item),
          high = number_or_zero (item_high item),
          low = number_or_zero (item_low item),
          close = number_or_zero (item_close item),
          volume = number_or_zero (item_volume item),
          change = change',
          change_percent = change_percent',
          trading_signal = trading_signal',
          timestamp = (if ToBoolean (item_timestamp item) then item_timestamp item else JStr now),
          ltp_changed = fst c_ltp,
          open_changed = fst c_open,
          high_changed = fst c_high,
          low_changed = fst c_low,
          close_changed = fst c_close,
          volume_changed = fst c_volume,
          signal_changed = signal_changed',
          ltp_direction = snd c_ltp,
          open_direction = snd c_open,
          high_direction = snd c_high,
          low_direction = snd c_low,
          close_direction = snd c_close,
          volume_direction = snd c_volume,
          prev_ltp = prev_or_zero ltp prevItem,
          prev_open = prev_or_zero open_price prevItem,
          prev_high = prev_or_zero high prevItem,
          prev_low = prev_or_zero low prevItem,
          prev_close = prev_or_zero close prevItem,
          prev_volume = prev_or_zero volume prevItem\<rparr>)"

text \<open>
  The loop itself. \<open>prev\<close> is \<open>prevDataRef.current\<close>, \<open>processedData\<close> the object being
  filled; \<open>now key\<close> is the reading of the clock while the entry of \<open>key\<close> is processed.
  A \<open>null\<close> entry throws at \<open>item.ltp\<close> and ends the effect.
\<close>

fun process_entries ::
    "(string \<Rightarrow> string) \<Rightarrow> (string \<rightharpoonup> row) \<Rightarrow> (string \<times> raw_item) list \<Rightarrow>
     (string \<rightharpoonup> row) \<Rightarrow> js_error + (string \<rightharpoonup> row)" where
  "process_entries now prev [] processedData = Inr processedData"
| "process_entries now prev ((key, Nullish) # rest) processedData = Inl TypeError"
| "process_entries now prev ((key, Item item) # rest) processedData =
     process_entries now prev rest
       (processedData(key \<mapsto> process_item (now key) (prev key) item))"

text \<open>
  The component keeps \<open>dataWithDefaults\<close> (what the table shows) and \<open>prevDataRef.current\<close>
  (the baseline of the next comparison).
\<close>

record table_state =
  dataWithDefaults :: "string \<rightharpoonup> row"
  prevDataRef :: "string \<rightharpoonup> row"

definition initial_table :: table_state where
  "initial_table = \<lparr>dataWithDefaults = Map.empty, prevDataRef = Map.empty\<rparr>"

text \<open>
  The effect that runs for every new \<open>marketData\<close>: \<open>None\<close> is a falsy \<open>marketData\<close>,
  \<open>Some entries\<close> one with \<open>Object.entries(marketData) = entries\<close>. The early return and
  a thrown error leave the state as it was; an error is reported as \<open>Inl\<close>.
\<close>

definition reconcile ::
    "(string \<Rightarrow> string) \<Rightarrow> (string \<times> raw_item) list option \<Rightarrow> table_state \<Rightarrow>
     js_error + table_state" where
  "reconcile now marketData st =
     (case marketData of
        None \<Rightarrow> Inr st
      | Some entries \<Rightarrow>
          if entries = [] then Inr st
          else
            (case process_entries now (prevDataRef st) entries Map.empty of
               Inl e \<Rightarrow> Inl e
             | Inr processedData \<Rightarrow>
                 Inr \<lparr>dataWithDefaults = processedData, prevDataRef = processedData\<rparr>))"

subsection \<open>Vocabulary for the properties\<close>

text \<open>The six numeric fields, and how each is read in a raw quote and in a row.\<close>

datatype numeric_field = Ltp | Open | High | Low | Close | Volume

fun raw_field :: "numeric_field \<Rightarrow> raw_quote \<Rightarrow> jsval" where
  "raw_field Ltp = item_ltp"
| "raw_field Open = item_open"
| "raw_field High = item_high"
| "raw_field Low = item_low"
| "raw_field Close = item_close"
| "raw_field Volume = item_volume"

fun row_value :: "numeric_field \<Rightarrow> row \<Rightarrow> jsnum" where
  "row_value Ltp = ltp"
| "row_value Open = open_price"
| "row_value High = high"
| "row_value Low = low"
| "row_value Close = close"
| "row_value Volume = volume"

fun row_changed :: "numeric_field \<Rightarrow> row \<Rightarrow> bool" where
  "row_changed Ltp = ltp_changed"
| "row_changed Open = open_changed"
| "row_changed High = high_changed"
| "row_changed Low = low_changed"
| "row_changed Close = close_changed"
| "row_changed Volume = volume_changed"

fun row_direction :: "numeric_field \<Rightarrow> row \<Rightarrow> direction option" where
  "row_direction Ltp = ltp_direction"
| "row_direction Open = open_direction"
| "row_direction High = high_direction"
| "row_direction Low = low_direction"
| "row_direction Close = close_direction"
| "row_direction Volume = volume_direction"

text \<open>
  The order and the equality of numbers, written with the order of the reals and not
  with the operators above: \<open>exceeds x y\<close> is \<open>x > y\<close>, \<open>same_number x y\<close> is \<open>x = y\<close> as
  numbers. The infinities lie below and above every finite number, NaN compares with
  nothing and the two zeros are the same number.
\<close>

fun rank :: "jsnum \<Rightarrow> int" where
  "rank NegInf = - 1"
| "rank PosInf = 1"
| "rank x = 0"

definition exceeds :: "jsnum \<Rightarrow> jsnum \<Rightarrow> bool" where
  "exceeds x y =
     (x \<noteq> NaN \<and> y \<noteq> NaN \<and> (rank y < rank x \<or> (rank y = rank x \<and> num_val y < num_val x)))"

definition same_number :: "jsnum \<Rightarrow> jsnum \<Rightarrow> bool" where
  "same_number x y = (x \<noteq> NaN \<and> y \<noteq> NaN \<and> rank x = rank y \<and> num_val x = num_val y)"

text \<open>
  The two percentages as the specification words them, on the numbers \<open>ltp\<close>, \<open>close\<close>,
  \<open>high\<close> and \<open>low\<close>, each operation being the one of the doubles.
\<close>

definition spec_change_percent :: "jsnum \<Rightarrow> jsnum \<Rightarrow> jsnum" where
  "spec_change_percent l c = num_mul (num_div (num_sub l c) c) (Fin 100)"

definition spec_volatility :: "jsnum \<Rightarrow> jsnum \<Rightarrow> jsnum \<Rightarrow> jsnum" where
  "spec_volatility h lo c = num_mul (num_div (num_sub h lo) c) (Fin 100)"

text \<open>A quote all of whose six numeric fields are numbers other than NaN.\<close>

definition well_formed :: "raw_quote \<Rightarrow> bool" where
  "well_formed q =
     list_all (\<lambda>f. case raw_field f q of JNum n \<Rightarrow> n \<noteq> NaN | _ \<Rightarrow> False)
       [Ltp, Open, High, Low, Close, Volume]"

fun well_formed_item :: "raw_item \<Rightarrow> bool" where
  "well_formed_item Nullish = False"
| "well_formed_item (Item q) = well_formed q"

text \<open>An entry that carries a truthy \<open>timestamp\<close>, so that the clock is not read for it.\<close>

fun stamped :: "raw_item \<Rightarrow> bool" where
  "stamped Nullish = True"
| "stamped (Item q) = ToBoolean (item_timestamp q)"

text \<open>The entries whose properties can be read.\<close>

fun readable :: "raw_item \<Rightarrow> bool" where
  "readable Nullish = False"
| "readable (Item q) = True"

text \<open>The row on display under a key after a run of the effect (none if it threw).\<close>

definition shown_row :: "js_error + table_state \<Rightarrow> string \<Rightarrow> row option" where
  "shown_row res key = (case res of Inl e \<Rightarrow> None | Inr st \<Rightarrow> dataWithDefaults st key)"

text \<open>Running the effect a second time on the result of a first run.\<close>

definition reconcile_again ::
    "(string \<Rightarrow> string) \<Rightarrow> (string \<times> raw_item) list option \<Rightarrow> js_error + table_state \<Rightarrow>
     js_error + table_state" where
  "reconcile_again now marketData res =
     (case res of Inl e \<Rightarrow> Inl e | Inr st \<Rightarrow> reconcile now marketData st)"

text \<open>The number a decimal literal of the payload denotes.\<close>

definition literal :: "real \<Rightarrow> jsval" where
  "literal x = JNum (round_double x)"

text \<open>
  A payload that has only the properties \<open>ltp\<close>, \<open>close\<close>, \<open>high\<close> and \<open>low\<close> (any of them
  possibly \<open>undefined\<close>), and one that has all six numeric properties.
\<close>

definition quote :: "jsval \<Rightarrow> jsval \<Rightarrow> jsval \<Rightarrow> jsval \<Rightarrow> raw_quote" where
  "quote l c h lo =
     \<lparr>item_symbol = JUndefined, item_ltp = l, item_open = JUndefined, item_high = h,
      item_low = lo, item_close = c, item_volume = JUndefined, item_timestamp = JUndefined\<rparr>"

definition full_quote :: "real \<Rightarrow> real \<Rightarrow> real \<Rightarrow> real \<Rightarrow> real \<Rightarrow> real \<Rightarrow> raw_quote" where
  "full_quote l opn h lo c v =
     \<lparr>item_symbol = JStr ''SBIN'', item_ltp = JNum (Fin l), item_open = JNum (Fin opn),
      item_high = JNum (Fin h), item_low = JNum (Fin lo), item_close = JNum (Fin c),
      item_volume = JNum (Fin v), item_timestamp = JStr ''2024-01-01T09:15:00.000Z''\<rparr>"

text \<open>Two readings of the clock.\<close>

definition clock1 :: "string \<Rightarrow> string" where
  "clock1 key = ''2024-01-01T09:15:01.000Z''"

definition clock2 :: "string \<Rightarrow> string" where
  "clock2 key = ''2024-01-01T09:15:02.000Z''"

text \<open>
  The state after a first snapshot with the one symbol \<open>SBIN\<close> has been reconciled at
  \<open>clock1\<close>.
\<close>

definition example_table :: table_state where
  "example_table =
     \<lparr>dataWithDefaults =
        [''SBIN'' \<mapsto> process_item (clock1 ''SBIN'') None (full_quote 100 99 102 98 99 5000)],
      prevDataRef =
        [''SBIN'' \<mapsto> process_item (clock1 ''SBIN'') None (full_quote 100 99 102 98 99 5000)]\<rparr>"

text \<open>Rows, and a table state, with the timestamps blanked.\<close>

definition blank_rows :: "(string \<rightharpoonup> row) \<Rightarrow> (string \<rightharpoonup> row)" where
  "blank_rows m = (\<lambda>k. map_option (\<lambda>r. r\<lparr>timestamp := JUndefined\<rparr>) (m k))"

definition blank_timestamps :: "table_state \<Rightarrow> table_state" where
  "blank_timestamps st =
     \<lparr>dataWithDefaults = blank_rows (dataWithDefaults st),
      prevDataRef = blank_rows (prevDataRef st)\<rparr>"

section \<open>Properties of the connection state\<close>

lemma conn_state_of_cases:
  "conn_state_of s =
     (if isConnected s then Some Connected
      else if serverIssueDetected s then
        (if isAttemptingReconnect s then Some ServerIssueRetrying else Some ServerIssueFailed)
      else if isAttemptingReconnect s then Some Reconnecting
      else Some Disconnected)"
  by (simp add: conn_state_of_def derived_message_def ConnectionStatus_def state_named_def)

lemma retry_shown_iff: "retry_shown s = (showConnectionModal s \<and> \<not> isConnected s)"
  by (simp add: retry_shown_def ConnectionStatus_def)

lemmas handlers =
  connectSocket_def on_connect_def on_disconnect_def on_connect_error_def
  on_reconnect_attempt_def on_reconnect_failed_def on_market_data_def
  handleManualReconnect_def handleRefresh_def

subsection \<open>The reconnect sequence\<close>

text \<open>
  C6, as the specification states it: from the initial state the events
  \<open>connect_error\<close>, \<open>reconnect_attempt\<close>, \<open>reconnect_exhausted\<close> lead through
  ServerIssueRetrying, Reconnecting and ServerIssueFailed. The handler of
  \<open>reconnect_attempt\<close> leaves \<open>serverIssueDetected\<close> alone, so the state after the second
  event is still ServerIssueRetrying, not Reconnecting.
\<close>

theorem reconnect_attempt_trace_counterexample:
  "conn_state_of (step (step mounted_state ConnectError) ReconnectAttempt) = Some ServerIssueRetrying
   \<and> conn_state_of (step (step mounted_state ConnectError) ReconnectAttempt) \<noteq> Some Reconnecting"
  by (simp add: conn_state_of_cases mounted_state_def initial_state_def handlers)

text \<open>
  C6, amended: from the state after mounting (not connected, an attempt in progress) the
  events \<open>connect_error\<close>, \<open>reconnect_attempt\<close>, \<open>reconnect_exhausted\<close> lead through
  ServerIssueRetrying, ServerIssueRetrying and ServerIssueFailed, and the retry button is
  on screen in the starting state and in each of these three. In general
  \<open>reconnect_attempt\<close> keeps a ServerIssueRetrying state.
\<close>

theorem reconnect_attempt_trace:
  "map conn_state_of (tl (trace mounted_state [ConnectError, ReconnectAttempt, ReconnectFailed])) =
     [Some ServerIssueRetrying, Some ServerIssueRetrying, Some ServerIssueFailed]
   \<and> map retry_shown (trace mounted_state [ConnectError, ReconnectAttempt, ReconnectFailed]) =
     [True, True, True, True]
   \<and> (conn_state_of s = Some ServerIssueRetrying \<longrightarrow>
        conn_state_of (step s ReconnectAttempt) = Some ServerIssueRetrying)"
  by (simp add: conn_state_of_cases retry_shown_iff mounted_state_def initial_state_def handlers
        split: if_splits)

theorem reconnect_attempt_trace_witness:
  "conn_state_of (step mounted_state ConnectError) = Some ServerIssueRetrying
   \<and> conn_state_of (step (step mounted_state ConnectError) ReconnectAttempt)
       = Some ServerIssueRetrying"
  using reconnect_attempt_trace [of "step mounted_state ConnectError"]
  by (simp add: conn_state_of_cases mounted_state_def initial_state_def handlers)

subsection \<open>Manual retry\<close>

text \<open>
  C7, as the specification states it: from any state \<open>user_retry\<close> gives Reconnecting and
  starts a connection attempt. \<open>handleManualReconnect\<close> does that only under
  \<open>socket && !socket.connected\<close> or \<open>!socket\<close>. After a \<open>connect\<close> event and a failed
  refresh fetch the socket is still connected while \<open>isConnected\<close> is false and the retry
  button is on screen; pressing it changes nothing and calls nothing.
\<close>

theorem manual_reconnect_counterexample:
  "handleManualReconnect (Some True) (step (step mounted_state Connect) (Refresh False)) =
     (\<lparr>isConnected = False, showConnectionModal = True,
       isAttemptingReconnect = False, serverIssueDetected = False\<rparr>, [])
   \<and> retry_shown (step (step mounted_state Connect) (Refresh False))
   \<and> conn_state_of
       (fst (handleManualReconnect (Some True) (step (step mounted_state Connect) (Refresh False))))
     = Some Disconnected"
  by (simp add: conn_state_of_cases retry_shown_iff mounted_state_def initial_state_def handlers)

text \<open>
  C7, amended: \<open>user_retry\<close> clears the server-issue flag in every state. When the socket is
  not connected at that moment (or does not exist) and the state is not connected, the
  result is Reconnecting with the status surface shown, and \<open>socket.connect()\<close> is called.
  When the socket is connected, nothing but the flag changes and nothing is called.
\<close>

theorem manual_reconnect:
  "serverIssueDetected (fst (handleManualReconnect socket s)) = False
   \<and> (socket \<noteq> Some True \<and> \<not> isConnected s \<longrightarrow>
        conn_state_of (fst (handleManualReconnect socket s)) = Some Reconnecting
        \<and> showConnectionModal (fst (handleManualReconnect socket s))
        \<and> SocketConnect \<in> set (snd (handleManualReconnect socket s)))
   \<and> (socket = Some True \<longrightarrow>
        handleManualReconnect socket s = (s\<lparr>serverIssueDetected := False\<rparr>, []))"
  by (cases socket) (auto simp: conn_state_of_cases handlers Let_def)

theorem manual_reconnect_witness:
  "conn_state_of (step (step mounted_state ConnectError) ReconnectFailed) = Some ServerIssueFailed
   \<and> conn_state_of (fst (handleManualReconnect (Some False)
         (step (step mounted_state ConnectError) ReconnectFailed))) = Some Reconnecting
   \<and> snd (handleManualReconnect (Some False)
         (step (step mounted_state ConnectError) ReconnectFailed)) = [SocketConnect]
   \<and> \<not> serverIssueDetected (fst (handleManualReconnect (Some False)
         (step (step mounted_state ConnectError) ReconnectFailed)))"
  using manual_reconnect [of "Some False" "step (step mounted_state ConnectError) ReconnectFailed"]
  by (simp add: conn_state_of_cases mounted_state_def initial_state_def handlers)

subsection \<open>The retry affordance\<close>

text \<open>
  C9, as the specification states it: in the initial state the surface reads
  "Connecting to server..." and has no retry button. What is rendered from the
  \<open>useState\<close> values, and again after the mount effect, has another message and has the
  button.
\<close>

theorem initial_view_counterexample:
  "ConnectionStatus initial_state =
     Some \<lparr>message = ''Disconnected from server. Please check your connection or retry.'',
           loader = True, retry_button = True\<rparr>
   \<and> ConnectionStatus mounted_state =
     Some \<lparr>message = ''Attempting to reconnect to server...'',
           loader = True, retry_button = True\<rparr>"
  by (simp add: ConnectionStatus_def mounted_state_def initial_state_def handlers)

text \<open>
  C9, amended: the retry button is on screen exactly when the status surface is shown and
  the state is Disconnected, Reconnecting, ServerIssueRetrying or ServerIssueFailed; it is
  never on screen in Connected; it is on screen in the initial state, before and after
  the mount effect.
\<close>

theorem retry_affordance:
  "retry_shown s =
     (showConnectionModal s \<and>
      (conn_state_of s = Some Disconnected \<or> conn_state_of s = Some Reconnecting \<or>
       conn_state_of s = Some ServerIssueRetrying \<or> conn_state_of s = Some ServerIssueFailed))
   \<and> (conn_state_of s = Some Connected \<longrightarrow> \<not> retry_shown s)
   \<and> retry_shown initial_state \<and> retry_shown mounted_state"
  by (simp add: conn_state_of_cases retry_shown_iff mounted_state_def initial_state_def handlers)

theorem retry_affordance_witness:
  "conn_state_of (step mounted_state Connect) = Some Connected
   \<and> \<not> retry_shown (step mounted_state Connect)"
  using retry_affordance [of "step mounted_state Connect"]
  by (simp add: conn_state_of_cases mounted_state_def initial_state_def handlers)

subsection \<open>The server-issue flag\<close>

text \<open>
  C10: \<open>connect_error\<close> and a disconnect for \<open>transport error\<close> or \<open>ping timeout\<close> set the
  server-issue flag. A valid \<open>market_data\<close> event sets \<open>isConnected\<close>, ends the
  reconnecting indication and leaves the flag set. Of all events only \<open>connect\<close>, a
  disconnect with reason \<open>io client disconnect\<close> and the manual retry clear a set flag, and
  each of them does. With the flag set, a valid \<open>market_data\<close> event followed by a
  disconnect for any other reason shows the ServerIssueRetrying message.
\<close>

theorem server_issue_flag_sticky:
  "serverIssueDetected (step s ConnectError)
   \<and> serverIssueDetected (step s (Disconnect ''transport error''))
   \<and> serverIssueDetected (step s (Disconnect ''ping timeout''))
   \<and> (serverIssueDetected s \<longrightarrow>
        serverIssueDetected (step s (MarketData True))
        \<and> isConnected (step s (MarketData True))
        \<and> \<not> isAttemptingReconnect (step s (MarketData True)))
   \<and> (serverIssueDetected s \<and> \<not> serverIssueDetected (step s e) \<longrightarrow>
        e = Connect \<or> e = Disconnect ''io client disconnect'' \<or> (\<exists>socket. e = ManualReconnect socket))
   \<and> \<not> serverIssueDetected (step s Connect)
   \<and> \<not> serverIssueDetected (step s (Disconnect ''io client disconnect''))
   \<and> \<not> serverIssueDetected (step s (ManualReconnect socket))
   \<and> (serverIssueDetected s \<and> reason \<noteq> ''io client disconnect'' \<longrightarrow>
        ConnectionStatus (step (step s (MarketData True)) (Disconnect reason)) =
          Some \<lparr>message = spec_message ServerIssueRetrying, loader = True, retry_button = True\<rparr>)"
proof -
  have clear: "serverIssueDetected s \<and> \<not> serverIssueDetected (step s e) \<longrightarrow>
        e = Connect \<or> e = Disconnect ''io client disconnect'' \<or> (\<exists>socket. e = ManualReconnect socket)"
    by (cases e) (auto simp: handlers Let_def split: if_splits)
  have manual: "\<not> serverIssueDetected (step s (ManualReconnect socket))"
    by (cases socket) (auto simp: handlers Let_def)
  have again: "serverIssueDetected s \<and> reason \<noteq> ''io client disconnect'' \<longrightarrow>
        ConnectionStatus (step (step s (MarketData True)) (Disconnect reason)) =
          Some \<lparr>message = spec_message ServerIssueRetrying, loader = True, retry_button = True\<rparr>"
    by (simp add: ConnectionStatus_def handlers Let_def)
  have rest: "serverIssueDetected (step s ConnectError)
   \<and> serverIssueDetected (step s (Disconnect ''transport error''))
   \<and> serverIssueDetected (step s (Disconnect ''ping timeout''))
   \<and> (serverIssueDetected s \<longrightarrow>
        serverIssueDetected (step s (MarketData True))
        \<and> isConnected (step s (MarketData True))
        \<and> \<not> isAttemptingReconnect (step s (MarketData True)))
   \<and> \<not> serverIssueDetected (step s Connect)
   \<and> \<not> serverIssueDetected (step s (Disconnect ''io client disconnect''))"
    by (simp add: handlers)
  from clear manual again rest show ?thesis by blast
qed

theorem server_issue_flag_sticky_witness:
  "serverIssueDetected (step mounted_state ConnectError)
   \<and> serverIssueDetected (step (step mounted_state ConnectError) (MarketData True))
   \<and> isConnected (step (step mounted_state ConnectError) (MarketData True))
   \<and> \<not> serverIssueDetected (step (step mounted_state ConnectError) Connect)
   \<and> ConnectionStatus
       (step (step (step mounted_state ConnectError) (MarketData True)) (Disconnect ''transport close'')) =
       Some \<lparr>message = ''Unable to connect to the server. It might be offline or experiencing issues. Retrying...'',
             loader = True, retry_button = True\<rparr>"
  using server_issue_flag_sticky
    [of "step mounted_state ConnectError" Connect "Some False" "''transport close''"]
  by (simp add: mounted_state_def initial_state_def handlers)

section \<open>Properties of the reconciliation\<close>

subsection \<open>One row\<close>

lemma num_lt_exceeds: "num_lt y x = exceeds x y"
  by (cases x; cases y) (auto simp: num_lt_def exceeds_def)

lemma num_eq_same_number: "num_eq x y = same_number x y"
  by (cases x; cases y) (auto simp: num_eq_def same_number_def is_zero_def)

lemma number_order:
  "x \<noteq> NaN \<Longrightarrow> p \<noteq> NaN \<Longrightarrow>
     (\<not> same_number x p) = (exceeds x p \<or> exceeds p x) \<and> \<not> (exceeds x p \<and> exceeds p x)"
  by (cases x; cases p) (auto simp: same_number_def exceeds_def)

lemma nan_arith:
  "num_sub NaN y = NaN" "num_sub x NaN = NaN"
  "num_div NaN y = NaN" "num_div x NaN = NaN"
  "num_mul NaN y = NaN" "num_mul x NaN = NaN"
  "\<not> num_lt NaN y" "\<not> num_lt x NaN"
  by (simp_all add: num_sub_def num_div_def num_mul_def num_lt_def)

lemma number_or_zero_case:
  "number_or_zero v = (case v of JNum n \<Rightarrow> n | _ \<Rightarrow> Fin 0)"
  by (cases v) (simp_all add: number_or_zero_def)

lemma value_process_item:
  "ltp (process_item now prevItem item) = number_or_zero (item_ltp item)"
  "open_price (process_item now prevItem item) = number_or_zero (item_open item)"
  "high (process_item now prevItem item) = number_or_zero (item_high item)"
  "low (process_item now prevItem item) = number_or_zero (item_low item)"
  "close (process_item now prevItem item) = number_or_zero (item_close item)"
  "volume (process_item now prevItem item) = number_or_zero (item_volume item)"
  by (simp_all add: process_item_def Let_def)

lemma changed_process_item:
  "ltp_changed (process_item now prevItem item) =
     strict_neq (item_ltp item) (prev_value ltp prevItem)"
  "open_changed (process_item now prevItem item) =
     strict_neq (item_open item) (prev_value open_price prevItem)"
  "high_changed (process_item now prevItem item) =
     strict_neq (item_high item) (prev_value high prevItem)"
  "low_changed (process_item now prevItem item) =
     strict_neq (item_low item) (prev_value low prevItem)"
  "close_changed (process_item now prevItem item) =
     strict_neq (item_close item) (prev_value close prevItem)"
  "volume_changed (process_item now prevItem item) =
     strict_neq (item_volume item) (prev_value volume prevItem)"
  by (simp_all add: process_item_def Let_def processedChange_def)

lemma direction_process_item:
  "ltp_direction (process_item now prevItem item) =
     (if strict_neq (item_ltp item) (prev_value ltp prevItem)
      then Some (if js_gt (item_ltp item) (prev_value ltp prevItem) then up else down)
      else None)"
  "open_direction (process_item now prevItem item) =
     (if strict_neq (item_open item) (prev_value open_price prevItem)
      then Some (if js_gt (item_open item) (prev_value open_price prevItem) then up else down)
      else None)"
  "high_direction (process_item now prevItem item) =
     (if strict_neq (item_high item) (prev_value high prevItem)
      then Some (if js_gt (item_high item) (prev_value high prevItem) then up else down)
      else None)"
  "low_direction (process_item now prevItem item) =
     (if strict_neq (item_low item) (prev_value low prevItem)
      then Some (if js_gt (item_low item) (prev_value low prevItem) then up else down)
      else None)"
  "close_direction (process_item now prevItem item) =
     (if strict_neq (item_close item) (prev_value close prevItem)
      then Some (if js_gt (item_close item) (prev_value close prevItem) then up else down)
      else None)"
  "volume_direction (process_item now prevItem item) =
     (if strict_neq (item_volume item) (prev_value volume prevItem)
      then Some (if js_gt (item_volume item) (prev_value volume prevItem) then up else down)
      else None)"
  by (simp_all add: process_item_def Let_def processedChange_def)

lemma derived_process_item:
  "change (process_item now prevItem item) = js_sub (item_ltp item) (item_close item)"
  "change_percent (process_item now prevItem item) =
     num_mul (js_div (JNum (js_sub (item_ltp item) (item_close item))) (item_close item)) (Fin 100)"
  "timestamp (process_item now prevItem item) =
     (if ToBoolean (item_timestamp item) then item_timestamp item else JStr now)"
  by (simp_all add: process_item_def Let_def)

lemma trading_signal_process_item:
  "trading_signal (process_item now prevItem item) =
     (let cp = num_mul (js_div (JNum (js_sub (item_ltp item) (item_close item))) (item_close item))
                 (Fin 100);
          vol = num_mul (js_div (JNum (js_sub (item_high item) (item_low item))) (item_close item))
                  (Fin 100)
      in if js_gt (item_ltp item) (item_close item) \<and> num_gt cp (Fin 1) \<and> num_lt vol (Fin 5)
         then BUY
         else if \<not> js_gt (item_ltp item) (item_close item) \<and> num_lt cp (Fin (- 1))
                   \<and> num_lt vol (Fin 5)
         then SELL
         else HOLD)"
  by (simp add: process_item_def Let_def)

lemma signal_changed_process_item:
  "signal_changed (process_item now prevItem item) =
     (case prevItem of
        None \<Rightarrow> True
      | Some r \<Rightarrow> trading_signal r \<noteq> trading_signal (process_item now prevItem item))"
  by (simp add: process_item_def Let_def split: option.splits)

lemma row_value_process_item:
  "row_value f (process_item now prevItem item) = number_or_zero (raw_field f item)"
  by (cases f) (simp_all add: value_process_item)

lemma row_changed_process_item:
  "row_changed f (process_item now prevItem item) =
     strict_neq (raw_field f item) (prev_value (row_value f) prevItem)"
  by (cases f) (simp_all add: changed_process_item)

lemma row_direction_process_item:
  "row_direction f (process_item now prevItem item) =
     (if strict_neq (raw_field f item) (prev_value (row_value f) prevItem)
      then Some (if js_gt (raw_field f item) (prev_value (row_value f) prevItem) then up else down)
      else None)"
  by (cases f) (simp_all add: direction_process_item)

lemma process_item_blank:
  "(process_item now1 p q)\<lparr>timestamp := JUndefined\<rparr> =
   (process_item now2 p q)\<lparr>timestamp := JUndefined\<rparr>"
  by (simp add: process_item_def Let_def)

lemma process_item_stamped:
  "ToBoolean (item_timestamp q) \<Longrightarrow> process_item now1 p q = process_item now2 p q"
  by (simp add: process_item_def Let_def)

lemma well_formed_field:
  "well_formed q \<Longrightarrow> \<exists>x. raw_field f q = JNum x \<and> x \<noteq> NaN"
  by (cases f) (auto simp: well_formed_def split: jsval.splits)

lemma process_item_again:
  assumes "well_formed q"
  shows "\<not> row_changed f (process_item now2 (Some (process_item now1 p q)) q)"
    and "row_direction f (process_item now2 (Some (process_item now1 p q)) q) = None"
    and "\<not> signal_changed (process_item now2 (Some (process_item now1 p q)) q)"
proof -
  from well_formed_field [OF assms, of f] obtain x where
    x: "raw_field f q = JNum x" "x \<noteq> NaN" by blast
  have v: "row_value f (process_item now1 p q) = x"
    using x by (simp add: row_value_process_item number_or_zero_def)
  show "\<not> row_changed f (process_item now2 (Some (process_item now1 p q)) q)"
    using x v by (simp add: row_changed_process_item prev_value_def strict_neq_def num_eq_def)
  show "row_direction f (process_item now2 (Some (process_item now1 p q)) q) = None"
    using x v by (simp add: row_direction_process_item prev_value_def strict_neq_def num_eq_def)
  show "\<not> signal_changed (process_item now2 (Some (process_item now1 p q)) q)"
    by (simp add: signal_changed_process_item trading_signal_process_item)
qed

subsection \<open>The loop and the effect\<close>

lemma process_entries_returns:
  "list_all readable (map snd entries) \<Longrightarrow> \<exists>pd. process_entries now prev entries acc = Inr pd"
proof (induction entries arbitrary: acc)
  case Nil
  then show ?case by simp
next
  case (Cons e rest)
  obtain key i where e: "e = (key, i)" by (cases e)
  with Cons.prems obtain q where i: "i = Item q" by (cases i) auto
  from Cons.prems have "list_all readable (map snd rest)" by simp
  from Cons.IH [OF this] show ?case by (simp add: e i)
qed

lemma process_entries_other:
  "process_entries now prev entries acc = Inr pd \<Longrightarrow> k \<notin> fst ` set entries \<Longrightarrow> pd k = acc k"
proof (induction entries arbitrary: acc)
  case Nil
  then show ?case by simp
next
  case (Cons e rest)
  obtain key i where e: "e = (key, i)" by (cases e)
  show ?case
  proof (cases i)
    case Nullish
    with Cons.prems e show ?thesis by simp
  next
    case (Item q)
    with Cons.prems e have run: "process_entries now prev rest
        (acc(key \<mapsto> process_item (now key) (prev key) q)) = Inr pd"
      and notin: "k \<notin> fst ` set rest" and neq: "k \<noteq> key" by auto
    from Cons.IH [OF run notin] neq show ?thesis by simp
  qed
qed

lemma process_entries_row:
  "process_entries now prev entries acc = Inr pd \<Longrightarrow> distinct (map fst entries) \<Longrightarrow>
     (k, Item q) \<in> set entries \<Longrightarrow> pd k = Some (process_item (now k) (prev k) q)"
proof (induction entries arbitrary: acc)
  case Nil
  then show ?case by simp
next
  case (Cons e rest)
  obtain key i where e: "e = (key, i)" by (cases e)
  show ?case
  proof (cases i)
    case Nullish
    with Cons.prems e show ?thesis by simp
  next
    case (Item item)
    with Cons.prems e have run: "process_entries now prev rest
        (acc(key \<mapsto> process_item (now key) (prev key) item)) = Inr pd"
      and dist: "distinct (map fst rest)" and fresh: "key \<notin> fst ` set rest" by auto
    show ?thesis
    proof (cases "(k, Item q) \<in> set rest")
      case True
      from Cons.IH [OF run dist True] show ?thesis .
    next
      case False
      with Cons.prems(3) e Item have same: "k = key" "q = item" by auto
      from process_entries_other [OF run fresh] same show ?thesis by simp
    qed
  qed
qed

lemma process_entries_dom:
  "process_entries now prev entries acc = Inr pd \<Longrightarrow> dom pd = dom acc \<union> fst ` set entries"
proof (induction entries arbitrary: acc)
  case Nil
  then show ?case by simp
next
  case (Cons e rest)
  obtain key i where e: "e = (key, i)" by (cases e)
  show ?case
  proof (cases i)
    case Nullish
    with Cons.prems e show ?thesis by simp
  next
    case (Item item)
    with Cons.prems e have run: "process_entries now prev rest
        (acc(key \<mapsto> process_item (now key) (prev key) item)) = Inr pd" by simp
    from Cons.IH [OF run] e show ?thesis by auto
  qed
qed

lemma blank_rows_upd:
  "blank_rows (m(k \<mapsto> r)) = (blank_rows m)(k \<mapsto> r\<lparr>timestamp := JUndefined\<rparr>)"
  by (auto simp: blank_rows_def)

lemma process_entries_blank:
  "blank_rows acc1 = blank_rows acc2 \<Longrightarrow>
     map_sum id blank_rows (process_entries now1 prev entries acc1) =
     map_sum id blank_rows (process_entries now2 prev entries acc2)"
proof (induction entries arbitrary: acc1 acc2)
  case Nil
  then show ?case by simp
next
  case (Cons e rest)
  obtain key i where e: "e = (key, i)" by (cases e)
  show ?case
  proof (cases i)
    case Nullish
    with e show ?thesis by simp
  next
    case (Item q)
    have step: "blank_rows (acc1(key \<mapsto> process_item (now1 key) (prev key) q)) =
          blank_rows (acc2(key \<mapsto> process_item (now2 key) (prev key) q))"
      using Cons.prems process_item_blank [of "now1 key" "prev key" q "now2 key"]
      by (simp add: blank_rows_upd)
    show ?thesis
      unfolding e Item process_entries.simps by (rule Cons.IH [OF step])
  qed
qed

lemma process_entries_stamped:
  "list_all stamped (map snd entries) \<Longrightarrow>
     process_entries now1 prev entries acc = process_entries now2 prev entries acc"
proof (induction entries arbitrary: acc)
  case Nil
  then show ?case by simp
next
  case (Cons e rest)
  obtain key i where e: "e = (key, i)" by (cases e)
  show ?case
  proof (cases i)
    case Nullish
    with e show ?thesis by simp
  next
    case (Item q)
    with Cons.prems e have ts: "ToBoolean (item_timestamp q)"
      and rest: "list_all stamped (map snd rest)" by simp_all
    have eq: "process_item (now1 key) (prev key) q = process_item (now2 key) (prev key) q"
      using ts by (rule process_item_stamped)
    show ?thesis
      unfolding e Item process_entries.simps eq by (rule Cons.IH [OF rest])
  qed
qed

lemma well_formed_readable:
  "list_all well_formed_item (map snd entries) \<Longrightarrow> list_all readable (map snd entries)"
  by (induction entries) (auto elim: well_formed_item.elims)

lemma reconcile_returns:
  "list_all readable (map snd entries) \<Longrightarrow> \<exists>st'. reconcile now (Some entries) st = Inr st'"
  using process_entries_returns [of entries now "prevDataRef st" Map.empty]
  by (auto simp: reconcile_def)

lemma reconcile_nonempty:
  assumes "reconcile now (Some entries) st = Inr st'" and "entries \<noteq> []"
  shows "process_entries now (prevDataRef st) entries Map.empty = Inr (dataWithDefaults st')"
    and "prevDataRef st' = dataWithDefaults st'"
  using assms by (auto simp: reconcile_def split: sum.splits)

lemma reconcile_row:
  assumes "reconcile now (Some entries) st = Inr st'" and "distinct (map fst entries)"
    and "(key, Item item) \<in> set entries"
  shows "dataWithDefaults st' key = Some (process_item (now key) (prevDataRef st key) item)"
proof -
  from assms(3) have "entries \<noteq> []" by auto
  from reconcile_nonempty(1) [OF assms(1) this] assms(2,3) show ?thesis
    by (rule process_entries_row)
qed

lemma shown_row_reconcile:
  assumes "list_all readable (map snd entries)" and "distinct (map fst entries)"
    and "(key, Item item) \<in> set entries"
  shows "shown_row (reconcile now (Some entries) st) key =
           Some (process_item (now key) (prevDataRef st key) item)"
proof -
  from reconcile_returns [OF assms(1)] obtain st' where
    run: "reconcile now (Some entries) st = Inr st'" by blast
  from reconcile_row [OF run assms(2,3)] run show ?thesis by (simp add: shown_row_def)
qed

text \<open>Rewrite rules for evaluating the effect on a concrete snapshot.\<close>

lemmas run_defs =
  reconcile_def shown_row_def reconcile_again_def initial_table_def example_table_def

lemmas row_simps =
  value_process_item changed_process_item direction_process_item derived_process_item
  trading_signal_process_item signal_changed_process_item

lemmas js_defs =
  Let_def prev_value_def number_or_zero_def js_sub_def js_div_def js_gt_def num_gt_def
  num_lt_def num_eq_def is_zero_def is_inf_def strict_neq_def quote_def full_quote_def
  clock1_def clock2_def

lemmas arith_defs =
  num_sub_def num_mul_def num_div_def is_zero_def is_inf_def signed_zero_def signed_inf_def

lemmas round_defs =
  round_double_def ulp_exponent_def quantise_def round_half_even_def nearest_even_def
  pow2_def pack_def

lemmas string_to_number_defs =
  StringToNumber_def trim_def is_ws_def parse_nondecimal_def parse_decimal_def
  parse_unsigned_decimal_def split_at_def parse_mantissa_def parse_exponent_def
  parse_digits_def digit_of_def

lemma example_table_reached:
  "reconcile clock1 (Some [(''SBIN'', Item (full_quote 100 99 102 98 99 5000))]) initial_table =
     Inr example_table"
  by (simp add: reconcile_def initial_table_def example_table_def)

text \<open>
  The arithmetic on examples: decimal literals that are not doubles, the results of the
  code's expressions on them, the signed zeros, overflow and underflow.
\<close>

lemma round_double_examples:
  "round_double 0.1 = Fin (3602879701896397 / 36028797018963968)"
  "round_double 121.2 = Fin (8528691794332877 / 70368744177664)"
  "round_double (- (1 / 3)) = Fin (- (6004799503160661 / 18014398509481984))"
  by (simp_all add: round_defs)

lemma double_arithmetic_examples:
  "num_sub (round_double 121.2) (Fin 120) = Fin (84442493013197 / 70368744177664)"
  "spec_change_percent (round_double 121.2) (Fin 120) = Fin (4503599627370507 / 4503599627370496)"
  "spec_change_percent (round_double 52.52) (Fin 52) = Fin (4503599627370523 / 4503599627370496)"
  "num_div (Fin 1) NegZero = NegInf"
  "spec_change_percent (Fin 1) NegZero = NegInf"
  "num_sub NegZero (Fin 0) = NegZero"
  "num_sub (Fin 5) (Fin 5) = Fin 0"
  "num_mul (Fin (- 3)) (Fin 0) = NegZero"
  by (simp_all add: spec_change_percent_def arith_defs round_defs)

lemma double_range_examples:
  "num_mul (Fin (2 ^ 1023)) (Fin 2) = PosInf"
  "num_div (Fin (- 1)) (Fin (2 ^ 1075)) = NegZero"
  by (simp_all add: arith_defs round_defs)

subsection \<open>The trading signal\<close>

text \<open>
  C1, as the specification states it: for every instrument record the signal follows from
  the record's \<open>ltp\<close>, \<open>close\<close>, \<open>high\<close> and \<open>low\<close>, and is BUY only if \<open>ltp > close\<close>.
  The signal is computed from the raw fields. A quote whose \<open>ltp\<close> is the string
  \<open>"101.5"\<close>, with close 100, high 102 and low 99, yields a record with \<open>ltp = 0\<close> and
  \<open>close = 100\<close>, whose signal is BUY.
\<close>

theorem string_price_counterexample:
  "map_option (\<lambda>r. (ltp r, close r, high r, low r, trading_signal r))
     (shown_row (reconcile clock1
        (Some [(''SBIN'', Item (quote (JStr ''101.5'') (JNum (Fin 100)) (JNum (Fin 102)) (JNum (Fin 99))))])
        initial_table) ''SBIN'')
   = Some (Fin 0, Fin 100, Fin 102, Fin 99, BUY)
   \<and> \<not> exceeds (Fin 0) (Fin 100)"
proof -
  have s: "StringToNumber ''101.5'' = Fin (203 / 2)"
    by (simp add: string_to_number_defs round_defs)
  have t: "js_gt (JStr ''101.5'') (JNum (Fin 100))"
    by (simp add: js_gt_def s num_lt_def)
  have d: "js_sub (JStr ''101.5'') (JNum (Fin 100)) = Fin (3 / 2)"
    by (simp add: js_sub_def s num_sub_def round_defs)
  have q: "js_div (JNum (Fin (3 / 2))) (JNum (Fin 100)) = Fin (1080863910568919 / 72057594037927936)"
    by (simp add: js_div_def arith_defs round_defs)
  have m: "num_mul (Fin (1080863910568919 / 72057594037927936)) (Fin 100) = Fin (3 / 2)"
    by (simp add: arith_defs round_defs)
  have d': "js_sub (JNum (Fin 102)) (JNum (Fin 99)) = Fin 3"
    by (simp add: js_sub_def num_sub_def round_defs)
  have q': "js_div (JNum (Fin 3)) (JNum (Fin 100)) = Fin (1080863910568919 / 36028797018963968)"
    by (simp add: js_div_def arith_defs round_defs)
  have m': "num_mul (Fin (1080863910568919 / 36028797018963968)) (Fin 100) = Fin 3"
    by (simp add: arith_defs round_defs)
  have sig: "trading_signal (process_item now None
               (quote (JStr ''101.5'') (JNum (Fin 100)) (JNum (Fin 102)) (JNum (Fin 99)))) = BUY" for now
    by (simp add: trading_signal_process_item quote_def t d q m d' q' m' num_gt_def num_lt_def)
  have row: "map_option (\<lambda>r. (ltp r, close r, high r, low r, trading_signal r))
     (shown_row (reconcile clock1
        (Some [(''SBIN'', Item (quote (JStr ''101.5'') (JNum (Fin 100)) (JNum (Fin 102)) (JNum (Fin 99))))])
        initial_table) ''SBIN'')
   = Some (Fin 0, Fin 100, Fin 102, Fin 99, BUY)"
    by (simp add: run_defs sig value_process_item) (simp add: quote_def number_or_zero_def)
  have below: "\<not> exceeds (Fin 0) (Fin 100)"
    by (simp add: exceeds_def)
  from row below show ?thesis by (rule conjI)
qed

text \<open>
  C1, amended: for every quote of a snapshot whose \<open>ltp\<close>, \<open>close\<close>, \<open>high\<close> and \<open>low\<close> are
  of type number, these four are the values of the record, and the signal of the record is
  a function of them alone (not of the clock, the previous state or the other fields).
  With change_percent = (ltp - close) / close * 100, which is also the record's
  \<open>change_percent\<close>, volatility = (high - low) / close * 100 and trend = up iff
  ltp > close, the signal is BUY iff the trend is up and change_percent > 1 and
  volatility < 5, SELL iff the trend is down and change_percent < -1 and volatility < 5,
  and HOLD in every other case. The boundary inputs of the specification are the witness:
  close = 100, ltp = 101.0001, high = 102, low = 99 gives BUY, and ltp = 100.9 gives HOLD.
\<close>

theorem trading_signal_pure:
  assumes "list_all readable (map snd entries)" and "distinct (map fst entries)"
    and "(key, Item item) \<in> set entries"
    and "item_ltp item = JNum l" and "item_close item = JNum c"
    and "item_high item = JNum h" and "item_low item = JNum lo"
  shows "\<exists>r. shown_row (reconcile now (Some entries) st) key = Some r
     \<and> ltp r = l \<and> close r = c \<and> high r = h \<and> low r = lo
     \<and> change_percent r = spec_change_percent (ltp r) (close r)
     \<and> (trading_signal r = BUY \<longleftrightarrow>
          exceeds (ltp r) (close r)
          \<and> exceeds (spec_change_percent (ltp r) (close r)) (Fin 1)
          \<and> exceeds (Fin 5) (spec_volatility (high r) (low r) (close r)))
     \<and> (trading_signal r = SELL \<longleftrightarrow>
          \<not> exceeds (ltp r) (close r)
          \<and> exceeds (Fin (- 1)) (spec_change_percent (ltp r) (close r))
          \<and> exceeds (Fin 5) (spec_volatility (high r) (low r) (close r)))
     \<and> (trading_signal r = HOLD \<longleftrightarrow>
          \<not> (exceeds (ltp r) (close r)
               \<and> exceeds (spec_change_percent (ltp r) (close r)) (Fin 1)
               \<and> exceeds (Fin 5) (spec_volatility (high r) (low r) (close r)))
          \<and> \<not> (\<not> exceeds (ltp r) (close r)
               \<and> exceeds (Fin (- 1)) (spec_change_percent (ltp r) (close r))
               \<and> exceeds (Fin 5) (spec_volatility (high r) (low r) (close r))))"
proof -
  let ?r = "process_item (now key) (prevDataRef st key) item"
  have row: "shown_row (reconcile now (Some entries) st) key = Some ?r"
    using assms(1-3) by (rule shown_row_reconcile)
  have vals: "ltp ?r = l" "close ?r = c" "high ?r = h" "low ?r = lo"
    using assms(4-7) by (simp_all add: value_process_item number_or_zero_def)
  have cp: "change_percent ?r = spec_change_percent l c"
    using assms(4,5)
    by (simp add: derived_process_item spec_change_percent_def js_sub_def js_div_def)
  have sig: "trading_signal ?r =
      (if exceeds l c \<and> exceeds (spec_change_percent l c) (Fin 1)
            \<and> exceeds (Fin 5) (spec_volatility h lo c) then BUY
       else if \<not> exceeds l c \<and> exceeds (Fin (- 1)) (spec_change_percent l c)
            \<and> exceeds (Fin 5) (spec_volatility h lo c) then SELL
       else HOLD)"
    using assms(4-7)
    by (simp add: trading_signal_process_item Let_def spec_change_percent_def
          spec_volatility_def js_sub_def js_div_def js_gt_def num_gt_def num_lt_exceeds)
  have all: "ltp ?r = l \<and> close ?r = c \<and> high ?r = h \<and> low ?r = lo
     \<and> change_percent ?r = spec_change_percent (ltp ?r) (close ?r)
     \<and> (trading_signal ?r = BUY \<longleftrightarrow>
          exceeds (ltp ?r) (close ?r)
          \<and> exceeds (spec_change_percent (ltp ?r) (close ?r)) (Fin 1)
          \<and> exceeds (Fin 5) (spec_volatility (high ?r) (low ?r) (close ?r)))
     \<and> (trading_signal ?r = SELL \<longleftrightarrow>
          \<not> exceeds (ltp ?r) (close ?r)
          \<and> exceeds (Fin (- 1)) (spec_change_percent (ltp ?r) (close ?r))
          \<and> exceeds (Fin 5) (spec_volatility (high ?r) (low ?r) (close ?r)))
     \<and> (trading_signal ?r = HOLD \<longleftrightarrow>
          \<not> (exceeds (ltp ?r) (close ?r)
               \<and> exceeds (spec_change_percent (ltp ?r) (close ?r)) (Fin 1)
               \<and> exceeds (Fin 5) (spec_volatility (high ?r) (low ?r) (close ?r)))
          \<and> \<not> (\<not> exceeds (ltp ?r) (close ?r)
               \<and> exceeds (Fin (- 1)) (spec_change_percent (ltp ?r) (close ?r))
               \<and> exceeds (Fin 5) (spec_volatility (high ?r) (low ?r) (close ?r))))"
    unfolding vals cp sig by auto
  show ?thesis
    by (rule exI [of _ ?r]) (rule conjI [OF row all])
qed

theorem trading_signal_pure_witness:
  "map_option trading_signal
     (shown_row (reconcile clock1
        (Some [(''SBIN'', Item (quote (literal 101.0001) (literal 100) (literal 102) (literal 99)))])
        initial_table) ''SBIN'') = Some BUY
   \<and> map_option trading_signal
     (shown_row (reconcile clock1
        (Some [(''SBIN'', Item (quote (literal 100.9) (literal 100) (literal 102) (literal 99)))])
        initial_table) ''SBIN'') = Some HOLD"
proof -
  have up: "exceeds (round_double 101.0001) (round_double 100)"
    "exceeds (round_double 100.9) (round_double 100)"
    by (simp_all add: exceeds_def round_defs)
  have cp1: "spec_change_percent (round_double 101.0001) (round_double 100) =
               Fin (35187890526041 / 35184372088832)"
    by (simp add: spec_change_percent_def arith_defs round_defs)
  have cp2: "spec_change_percent (round_double 100.9) (round_double 100) =
               Fin (31665934879949 / 35184372088832)"
    by (simp add: spec_change_percent_def arith_defs round_defs)
  have vol: "spec_volatility (round_double 102) (round_double 99) (round_double 100) = Fin 3"
    by (simp add: spec_volatility_def arith_defs round_defs)
  have above: "exceeds (Fin (35187890526041 / 35184372088832)) (Fin 1)"
    and below: "\<not> exceeds (Fin (31665934879949 / 35184372088832)) (Fin 1)"
    and not_sell: "\<not> exceeds (Fin (- 1)) (Fin (31665934879949 / 35184372088832))"
    and calm: "exceeds (Fin 5) (Fin 3)"
    by (simp_all add: exceeds_def)
  from trading_signal_pure
      [of "[(''SBIN'', Item (quote (literal 101.0001) (literal 100) (literal 102) (literal 99)))]"
          "''SBIN''" "quote (literal 101.0001) (literal 100) (literal 102) (literal 99)"
          "round_double 101.0001" "round_double 100" "round_double 102" "round_double 99"
          clock1 initial_table]
  obtain r1 where row1: "shown_row (reconcile clock1
        (Some [(''SBIN'', Item (quote (literal 101.0001) (literal 100) (literal 102) (literal 99)))])
        initial_table) ''SBIN'' = Some r1"
    and v1: "ltp r1 = round_double 101.0001" "close r1 = round_double 100"
      "high r1 = round_double 102" "low r1 = round_double 99"
    and buy1: "trading_signal r1 = BUY \<longleftrightarrow>
          exceeds (ltp r1) (close r1)
          \<and> exceeds (spec_change_percent (ltp r1) (close r1)) (Fin 1)
          \<and> exceeds (Fin 5) (spec_volatility (high r1) (low r1) (close r1))"
    unfolding quote_def literal_def by fastforce
  have s1: "trading_signal r1 = BUY"
    unfolding buy1 v1 cp1 vol using up(1) above calm by simp
  from trading_signal_pure
      [of "[(''SBIN'', Item (quote (literal 100.9) (literal 100) (literal 102) (literal 99)))]"
          "''SBIN''" "quote (literal 100.9) (literal 100) (literal 102) (literal 99)"
          "round_double 100.9" "round_double 100" "round_double 102" "round_double 99"
          clock1 initial_table]
  obtain r2 where row2: "shown_row (reconcile clock1
        (Some [(''SBIN'', Item (quote (literal 100.9) (literal 100) (literal 102) (literal 99)))])
        initial_table) ''SBIN'' = Some r2"
    and v2: "ltp r2 = round_double 100.9" "close r2 = round_double 100"
      "high r2 = round_double 102" "low r2 = round_double 99"
    and hold2: "trading_signal r2 = HOLD \<longleftrightarrow>
          \<not> (exceeds (ltp r2) (close r2)
               \<and> exceeds (spec_change_percent (ltp r2) (close r2)) (Fin 1)
               \<and> exceeds (Fin 5) (spec_volatility (high r2) (low r2) (close r2)))
          \<and> \<not> (\<not> exceeds (ltp r2) (close r2)
               \<and> exceeds (Fin (- 1)) (spec_change_percent (ltp r2) (close r2))
               \<and> exceeds (Fin 5) (spec_volatility (high r2) (low r2) (close r2)))"
    unfolding quote_def literal_def by fastforce
  have s2: "trading_signal r2 = HOLD"
    unfolding hold2 v2 cp2 vol using up(2) below by simp
  show ?thesis unfolding row1 row2 using s1 s2 by simp
qed

subsection \<open>Change flags and directions\<close>

text \<open>
  C2, as the specification states it, ends with: a field of a symbol that appears for the
  first time is not flagged as changed. On the first snapshot the previous value reads as
  \<open>undefined\<close>, from which every number is strictly different: the \<open>ltp\<close> of a first-seen
  symbol is flagged.
\<close>

theorem first_snapshot_flags_counterexample:
  "map_option (\<lambda>r. (ltp_changed r, ltp_direction r))
     (shown_row (reconcile clock1
        (Some [(''SBIN'', Item (full_quote 100 99 102 98 99 5000))]) initial_table) ''SBIN'')
   = Some (True, Some down)"
  by (simp add: run_defs row_simps js_defs)

text \<open>
  C2, amended: for every symbol of a snapshot (each key listed once, every entry a
  readable object) and each of the six numeric fields: when the symbol has a row in the
  previous output and both the new raw value and the previous value are numbers other than
  NaN, \<open>changed\<close> is true iff the two are different numbers, the direction is \<open>up\<close> if
  new > previous and \<open>down\<close> if new < previous, and when they are the same number
  \<open>changed\<close> is false and the direction is absent. A field of a symbol that appears for the
  first time is flagged as changed exactly when the raw quote has that field.
\<close>

theorem change_flags:
  assumes "list_all readable (map snd entries)" and "distinct (map fst entries)"
    and "(key, Item item) \<in> set entries"
  shows "\<exists>r. shown_row (reconcile now (Some entries) st) key = Some r
     \<and> (\<forall>prow x. prevDataRef st key = Some prow \<and> raw_field f item = JNum x
            \<and> x \<noteq> NaN \<and> row_value f prow \<noteq> NaN \<longrightarrow>
          row_changed f r = (\<not> same_number x (row_value f prow))
          \<and> (exceeds x (row_value f prow) \<longrightarrow> row_direction f r = Some up)
          \<and> (exceeds (row_value f prow) x \<longrightarrow> row_direction f r = Some down)
          \<and> (same_number x (row_value f prow) \<longrightarrow> row_direction f r = None))
     \<and> (prevDataRef st key = None \<longrightarrow>
          row_changed f r = (raw_field f item \<noteq> JUndefined))"
proof -
  let ?r = "process_item (now key) (prevDataRef st key) item"
  have row: "shown_row (reconcile now (Some entries) st) key = Some ?r"
    using assms by (rule shown_row_reconcile)
  have known: "row_changed f ?r = (\<not> same_number x (row_value f prow))
          \<and> (exceeds x (row_value f prow) \<longrightarrow> row_direction f ?r = Some up)
          \<and> (exceeds (row_value f prow) x \<longrightarrow> row_direction f ?r = Some down)
          \<and> (same_number x (row_value f prow) \<longrightarrow> row_direction f ?r = None)"
    if "prevDataRef st key = Some prow" "raw_field f item = JNum x" "x \<noteq> NaN"
      "row_value f prow \<noteq> NaN" for prow x
    using that number_order [of x "row_value f prow"]
    by (auto simp: row_changed_process_item row_direction_process_item prev_value_def
          strict_neq_def js_gt_def num_lt_exceeds num_eq_same_number)
  have A: "\<forall>prow x. prevDataRef st key = Some prow \<and> raw_field f item = JNum x
            \<and> x \<noteq> NaN \<and> row_value f prow \<noteq> NaN \<longrightarrow>
          row_changed f ?r = (\<not> same_number x (row_value f prow))
          \<and> (exceeds x (row_value f prow) \<longrightarrow> row_direction f ?r = Some up)
          \<and> (exceeds (row_value f prow) x \<longrightarrow> row_direction f ?r = Some down)
          \<and> (same_number x (row_value f prow) \<longrightarrow> row_direction f ?r = None)"
  proof (intro allI impI)
    fix prow x
    assume h: "prevDataRef st key = Some prow \<and> raw_field f item = JNum x
            \<and> x \<noteq> NaN \<and> row_value f prow \<noteq> NaN"
    then show "row_changed f ?r = (\<not> same_number x (row_value f prow))
          \<and> (exceeds x (row_value f prow) \<longrightarrow> row_direction f ?r = Some up)
          \<and> (exceeds (row_value f prow) x \<longrightarrow> row_direction f ?r = Some down)
          \<and> (same_number x (row_value f prow) \<longrightarrow> row_direction f ?r = None)"
      using known [of prow x] by simp
  qed
  have B: "prevDataRef st key = None \<longrightarrow>
          row_changed f ?r = (raw_field f item \<noteq> JUndefined)"
    by (cases "raw_field f item")
       (simp_all add: row_changed_process_item prev_value_def strict_neq_def)
  show ?thesis by (intro exI [of _ ?r] conjI) (rule row, rule A, rule B)
qed

theorem change_flags_witness:
  "map_option (\<lambda>r. (ltp_changed r, ltp_direction r, open_changed r, open_direction r,
                    volume_changed r, volume_direction r))
     (shown_row (reconcile clock2
        (Some [(''SBIN'', Item (full_quote 101 99 102 98 99 4000))]) example_table) ''SBIN'')
   = Some (True, Some up, False, None, True, Some down)"
  using change_flags
    [of "[(''SBIN'', Item (full_quote 101 99 102 98 99 4000))]" "''SBIN''"
        "full_quote 101 99 102 98 99 4000" clock2 example_table Ltp]
  by (simp add: run_defs row_simps js_defs)

subsection \<open>A second run on the same snapshot\<close>

text \<open>
  C3, as the specification states it: for any snapshot, a second run on the same snapshot
  reports no change. The comparison is between the raw new value and the stored previous
  value; a quote without \<open>volume\<close> is stored with volume 0, and on the second run
  \<open>undefined\<close> is strictly different from 0.
\<close>

theorem second_run_counterexample:
  "map_option (\<lambda>r. (volume_changed r, volume_direction r))
     (shown_row
        (reconcile_again clock2
           (Some [(''SBIN'', Item (quote (JNum (Fin 101)) (JNum (Fin 100)) (JNum (Fin 102)) (JNum (Fin 99))))])
           (reconcile clock1
              (Some [(''SBIN'', Item (quote (JNum (Fin 101)) (JNum (Fin 100)) (JNum (Fin 102)) (JNum (Fin 99))))])
              initial_table))
        ''SBIN'')
   = Some (True, Some down)"
  by (simp add: run_defs row_simps js_defs)

text \<open>
  C3, amended: for any previous state and any non-empty snapshot (each key listed once)
  in which the six numeric fields of every quote are numbers other than NaN, both runs
  return, and in the result of the second run every field of every symbol has
  \<open>changed = false\<close> and no direction, and the signal is not flagged as changed either.
\<close>

theorem second_run_unchanged:
  assumes "entries \<noteq> []" and "distinct (map fst entries)"
    and "list_all well_formed_item (map snd entries)"
  shows "\<exists>st1 st2.
           reconcile now1 (Some entries) st = Inr st1
           \<and> reconcile now2 (Some entries) st1 = Inr st2
           \<and> (\<forall>key r. dataWithDefaults st2 key = Some r \<longrightarrow>
                 (\<forall>f. \<not> row_changed f r \<and> row_direction f r = None) \<and> \<not> signal_changed r)"
proof -
  have rd: "list_all readable (map snd entries)"
    using assms(3) by (rule well_formed_readable)
  from reconcile_returns [OF rd] obtain st1 where
    run1: "reconcile now1 (Some entries) st = Inr st1" by blast
  from reconcile_returns [OF rd] obtain st2 where
    run2: "reconcile now2 (Some entries) st1 = Inr st2" by blast
  have flags: "(\<forall>f. \<not> row_changed f r \<and> row_direction f r = None) \<and> \<not> signal_changed r"
    if look: "dataWithDefaults st2 key = Some r" for key r
  proof -
    from reconcile_nonempty [OF run2 assms(1)]
    have pe: "process_entries now2 (prevDataRef st1) entries Map.empty = Inr (dataWithDefaults st2)"
      by simp
    from process_entries_dom [OF pe] look have "key \<in> fst ` set entries" by auto
    then obtain i where mem: "(key, i) \<in> set entries" by auto
    with assms(3) have "well_formed_item i" by (auto simp: list_all_iff)
    then obtain q where i: "i = Item q" and wf: "well_formed q"
      by (cases i) auto
    from mem i have memq: "(key, Item q) \<in> set entries" by simp
    from reconcile_row [OF run1 assms(2) memq] reconcile_nonempty(2) [OF run1 assms(1)]
    have prev: "prevDataRef st1 key = Some (process_item (now1 key) (prevDataRef st key) q)"
      by simp
    from reconcile_row [OF run2 assms(2) memq] prev look
    have r: "r = process_item (now2 key) (Some (process_item (now1 key) (prevDataRef st key) q)) q"
      by simp
    show ?thesis unfolding r using process_item_again [OF wf] by blast
  qed
  from run1 run2 flags show ?thesis by blast
qed

theorem second_run_unchanged_witness:
  "map_option (\<lambda>r. (map (\<lambda>f. row_changed f r) [Ltp, Open, High, Low, Close, Volume], signal_changed r))
     (shown_row
        (reconcile_again clock2 (Some [(''SBIN'', Item (full_quote 101 99 102 98 99 4000))])
           (reconcile clock1 (Some [(''SBIN'', Item (full_quote 101 99 102 98 99 4000))])
              example_table))
        ''SBIN'')
   = Some ([False, False, False, False, False, False], False)"
  using second_run_unchanged
    [of "[(''SBIN'', Item (full_quote 101 99 102 98 99 4000))]" clock1 example_table clock2]
  by (simp add: run_defs row_simps js_defs)

subsection \<open>Safe defaults\<close>

text \<open>
  C4, as the specification states it: every numeric field that is missing, non-numeric or
  NaN is coerced to 0 before the derived values are computed, so that the quote with
  \<open>ltp = "abc"\<close> and \<open>close = null\<close> has \<open>change = 0\<close>. The derived values are computed from
  the raw fields: the \<open>change\<close> of that quote is NaN. And \<open>typeof NaN\<close> is \<open>'number'\<close>: a
  raw NaN is stored as NaN.
\<close>

theorem coercion_counterexample:
  "map_option change
     (shown_row (reconcile clock1
        (Some [(''SBIN'', Item (quote (JStr ''abc'') JNull JUndefined JUndefined))])
        initial_table) ''SBIN'') = Some NaN
   \<and> map_option ltp
     (shown_row (reconcile clock1
        (Some [(''SBIN'', Item (quote (JNum NaN) JNull JUndefined JUndefined))])
        initial_table) ''SBIN'') = Some NaN"
  by (simp add: run_defs row_simps js_defs nan_arith string_to_number_defs)

text \<open>
  C4, amended: on a snapshot whose entries are readable objects the reconciliation does
  not raise, whatever the fields hold; in the row of every quote each of the six numeric
  fields is the raw value if that is of type number and 0 otherwise (missing, \<open>null\<close>, a
  boolean, a string); in particular the quote with \<open>ltp = "abc"\<close> and \<open>close = null\<close>
  gets \<open>ltp = 0\<close>, \<open>close = 0\<close> and the signal HOLD, under any key, clock and previous
  state.
\<close>

theorem safe_defaults:
  assumes "list_all readable (map snd entries)"
  shows "(\<exists>st'. reconcile now (Some entries) st = Inr st')
     \<and> (distinct (map fst entries) \<and> (key, Item item) \<in> set entries \<longrightarrow>
          (\<exists>r. shown_row (reconcile now (Some entries) st) key = Some r
             \<and> row_value f r = (case raw_field f item of JNum n \<Rightarrow> n | _ \<Rightarrow> Fin 0)))
     \<and> map_option (\<lambda>r. (ltp r, close r, trading_signal r))
          (shown_row (reconcile now
             (Some [(key', Item (quote (JStr ''abc'') JNull JUndefined JUndefined))]) st) key')
        = Some (Fin 0, Fin 0, HOLD)"
proof -
  have no_raise: "\<exists>st'. reconcile now (Some entries) st = Inr st'"
    using assms by (rule reconcile_returns)
  have coerced: "distinct (map fst entries) \<and> (key, Item item) \<in> set entries \<longrightarrow>
          (\<exists>r. shown_row (reconcile now (Some entries) st) key = Some r
             \<and> row_value f r = (case raw_field f item of JNum n \<Rightarrow> n | _ \<Rightarrow> Fin 0))"
    using shown_row_reconcile [OF assms, of key item now st]
    by (simp add: row_value_process_item number_or_zero_case)
  have example: "map_option (\<lambda>r. (ltp r, close r, trading_signal r))
          (shown_row (reconcile now
             (Some [(key', Item (quote (JStr ''abc'') JNull JUndefined JUndefined))]) st) key')
        = Some (Fin 0, Fin 0, HOLD)"
    by (simp add: run_defs row_simps js_defs nan_arith string_to_number_defs)
  show ?thesis by (intro conjI) (rule no_raise, rule coerced, rule example)
qed

theorem safe_defaults_witness:
  "(\<exists>st'. reconcile clock1
        (Some [(''SBIN'', Item (quote (JStr ''12.5'') (JNum (Fin 100)) JNull (JBool True)))])
        example_table = Inr st')
   \<and> map_option (\<lambda>r. map (\<lambda>f. row_value f r) [Ltp, Open, High, Low, Close, Volume])
        (shown_row (reconcile clock1
           (Some [(''SBIN'', Item (quote (JStr ''12.5'') (JNum (Fin 100)) JNull (JBool True)))])
           example_table) ''SBIN'')
      = Some [Fin 0, Fin 0, Fin 0, Fin 0, Fin 100, Fin 0]"
  using safe_defaults
    [of "[(''SBIN'', Item (quote (JStr ''12.5'') (JNum (Fin 100)) JNull (JBool True)))]"
        clock1 example_table "''SBIN''" "quote (JStr ''12.5'') (JNum (Fin 100)) JNull (JBool True)"]
  by (simp add: run_defs row_simps js_defs)

subsection \<open>One row per symbol\<close>

text \<open>
  C5, as the specification states it: also for an empty snapshot the output has exactly
  the symbols of the snapshot. The effect returns at once on an empty snapshot and the
  rows of the previous one stay.
\<close>

theorem empty_snapshot_counterexample:
  "reconcile clock2 (Some []) example_table = Inr example_table
   \<and> dom (dataWithDefaults example_table) = {''SBIN''}
   \<and> dom (prevDataRef example_table) = {''SBIN''}"
  by (simp add: reconcile_def example_table_def)

text \<open>
  C5, amended: for every non-empty snapshot whose entries are readable objects and for
  every previous state, the output has exactly one row per symbol of the snapshot, symbols
  absent from it are dropped, and the retained baseline is that output. An empty or
  missing snapshot leaves the output and the baseline as they were.
\<close>

theorem one_entry_per_symbol:
  "(entries \<noteq> [] \<and> list_all readable (map snd entries) \<longrightarrow>
      (\<exists>st'. reconcile now (Some entries) st = Inr st'
         \<and> dom (dataWithDefaults st') = fst ` set entries
         \<and> prevDataRef st' = dataWithDefaults st'))
   \<and> reconcile now (Some []) st = Inr st
   \<and> reconcile now None st = Inr st"
proof -
  have "\<exists>st'. reconcile now (Some entries) st = Inr st'
         \<and> dom (dataWithDefaults st') = fst ` set entries
         \<and> prevDataRef st' = dataWithDefaults st'"
    if ne: "entries \<noteq> []" and rd: "list_all readable (map snd entries)"
  proof -
    from reconcile_returns [OF rd] obtain st' where
      run: "reconcile now (Some entries) st = Inr st'" by blast
    from process_entries_dom [OF reconcile_nonempty(1) [OF run ne]]
    have "dom (dataWithDefaults st') = fst ` set entries" by simp
    with run reconcile_nonempty(2) [OF run ne] show ?thesis by blast
  qed
  then show ?thesis by (simp add: reconcile_def)
qed

theorem one_entry_per_symbol_witness:
  "(\<exists>st'. reconcile clock2 (Some [(''TCS'', Item (full_quote 101 99 102 98 99 4000))])
             example_table = Inr st'
         \<and> dom (dataWithDefaults st') = {''TCS''}
         \<and> prevDataRef st' = dataWithDefaults st')
   \<and> dom (dataWithDefaults example_table) = {''SBIN''}"
  using one_entry_per_symbol
    [of "[(''TCS'', Item (full_quote 101 99 102 98 99 4000))]" clock2 example_table]
  by (simp add: example_table_def)

subsection \<open>Determinism\<close>

text \<open>
  C8, as the specification states it: two runs on the same previous state and snapshot
  give identical outputs, timestamps included. A quote without a timestamp is stamped with
  the time of the run, so two runs at different times differ.
\<close>

theorem clock_counterexample:
  "map_option timestamp
     (shown_row (reconcile clock1
        (Some [(''SBIN'', Item (quote (JNum (Fin 101)) (JNum (Fin 100)) (JNum (Fin 102)) (JNum (Fin 99))))])
        initial_table) ''SBIN'') = Some (JStr ''2024-01-01T09:15:01.000Z'')
   \<and> map_option timestamp
     (shown_row (reconcile clock2
        (Some [(''SBIN'', Item (quote (JNum (Fin 101)) (JNum (Fin 100)) (JNum (Fin 102)) (JNum (Fin 99))))])
        initial_table) ''SBIN'') = Some (JStr ''2024-01-01T09:15:02.000Z'')
   \<and> reconcile clock1
        (Some [(''SBIN'', Item (quote (JNum (Fin 101)) (JNum (Fin 100)) (JNum (Fin 102)) (JNum (Fin 99))))])
        initial_table
     \<noteq> reconcile clock2
        (Some [(''SBIN'', Item (quote (JNum (Fin 101)) (JNum (Fin 100)) (JNum (Fin 102)) (JNum (Fin 99))))])
        initial_table"
proof -
  let ?S = "Some [(''SBIN'', Item (quote (JNum (Fin 101)) (JNum (Fin 100)) (JNum (Fin 102)) (JNum (Fin 99))))]"
  have a: "map_option timestamp (shown_row (reconcile clock1 ?S initial_table) ''SBIN'')
             = Some (JStr ''2024-01-01T09:15:01.000Z'')"
    by (simp add: run_defs row_simps js_defs)
  have b: "map_option timestamp (shown_row (reconcile clock2 ?S initial_table) ''SBIN'')
             = Some (JStr ''2024-01-01T09:15:02.000Z'')"
    by (simp add: run_defs row_simps js_defs)
  have c: "reconcile clock1 ?S initial_table \<noteq> reconcile clock2 ?S initial_table"
  proof
    assume "reconcile clock1 ?S initial_table = reconcile clock2 ?S initial_table"
    then have "map_option timestamp (shown_row (reconcile clock1 ?S initial_table) ''SBIN'') =
               map_option timestamp (shown_row (reconcile clock2 ?S initial_table) ''SBIN'')"
      by (rule arg_cong)
    then show False unfolding a b by simp
  qed
  from a b c show ?thesis by (intro conjI)
qed

text \<open>
  C8, amended: two runs on the same previous state and the same snapshot agree on whether
  they raise and produce outputs that are identical in every field other than the
  timestamp. For every quote that carries a truthy timestamp the two rows are identical,
  the timestamp being the quote's own; a quote without one is stamped with the reading of
  the clock in the run. When every quote of the snapshot carries a timestamp the outputs
  are identical altogether, whatever the clock reads.
\<close>

theorem deterministic_but_for_clock:
  "map_sum id blank_timestamps (reconcile now1 marketData st) =
     map_sum id blank_timestamps (reconcile now2 marketData st)
   \<and> (list_all readable (map snd entries) \<and> distinct (map fst entries)
        \<and> (key, Item item) \<in> set entries \<longrightarrow>
        (\<exists>r1 r2. shown_row (reconcile now1 (Some entries) st) key = Some r1
           \<and> shown_row (reconcile now2 (Some entries) st) key = Some r2
           \<and> r1\<lparr>timestamp := JUndefined\<rparr> = r2\<lparr>timestamp := JUndefined\<rparr>
           \<and> (ToBoolean (item_timestamp item) \<longrightarrow>
                r1 = r2 \<and> timestamp r1 = item_timestamp item)
           \<and> (\<not> ToBoolean (item_timestamp item) \<longrightarrow>
                timestamp r1 = JStr (now1 key) \<and> timestamp r2 = JStr (now2 key))))
   \<and> (list_all stamped (map snd entries) \<longrightarrow>
        reconcile now1 (Some entries) st = reconcile now2 (Some entries) st)"
proof -
  have blank: "map_sum id blank_timestamps (reconcile now1 marketData st) =
     map_sum id blank_timestamps (reconcile now2 marketData st)"
  proof (cases marketData)
    case None
    then show ?thesis by (simp add: reconcile_def)
  next
    case (Some es)
    have "map_sum id blank_rows (process_entries now1 (prevDataRef st) es Map.empty) =
          map_sum id blank_rows (process_entries now2 (prevDataRef st) es Map.empty)"
      by (rule process_entries_blank) simp
    then show ?thesis
      using Some
      by (cases "process_entries now1 (prevDataRef st) es Map.empty";
          cases "process_entries now2 (prevDataRef st) es Map.empty")
         (simp_all add: reconcile_def blank_timestamps_def)
  qed
  have each: "\<exists>r1 r2. shown_row (reconcile now1 (Some entries) st) key = Some r1
           \<and> shown_row (reconcile now2 (Some entries) st) key = Some r2
           \<and> r1\<lparr>timestamp := JUndefined\<rparr> = r2\<lparr>timestamp := JUndefined\<rparr>
           \<and> (ToBoolean (item_timestamp item) \<longrightarrow>
                r1 = r2 \<and> timestamp r1 = item_timestamp item)
           \<and> (\<not> ToBoolean (item_timestamp item) \<longrightarrow>
                timestamp r1 = JStr (now1 key) \<and> timestamp r2 = JStr (now2 key))"
    if rd: "list_all readable (map snd entries)" and dist: "distinct (map fst entries)"
      and mem: "(key, Item item) \<in> set entries"
  proof -
    let ?r1 = "process_item (now1 key) (prevDataRef st key) item"
    let ?r2 = "process_item (now2 key) (prevDataRef st key) item"
    have row1: "shown_row (reconcile now1 (Some entries) st) key = Some ?r1"
      using rd dist mem by (rule shown_row_reconcile)
    have row2: "shown_row (reconcile now2 (Some entries) st) key = Some ?r2"
      using rd dist mem by (rule shown_row_reconcile)
    have same: "?r1\<lparr>timestamp := JUndefined\<rparr> = ?r2\<lparr>timestamp := JUndefined\<rparr>"
      by (rule process_item_blank)
    have stamped: "ToBoolean (item_timestamp item) \<longrightarrow>
                ?r1 = ?r2 \<and> timestamp ?r1 = item_timestamp item"
      using process_item_stamped [of item "now1 key" "prevDataRef st key" "now2 key"]
      by (simp add: derived_process_item)
    have unstamped: "\<not> ToBoolean (item_timestamp item) \<longrightarrow>
                timestamp ?r1 = JStr (now1 key) \<and> timestamp ?r2 = JStr (now2 key)"
      by (simp add: derived_process_item)
    show ?thesis
      by (intro exI [of _ ?r1] exI [of _ ?r2] conjI)
         (rule row1, rule row2, rule same, rule stamped, rule unstamped)
  qed
  have same: "list_all stamped (map snd entries) \<longrightarrow>
        reconcile now1 (Some entries) st = reconcile now2 (Some entries) st"
    using process_entries_stamped [of entries now1 "prevDataRef st" Map.empty now2]
    by (simp add: reconcile_def)
  from each have each': "list_all readable (map snd entries) \<and> distinct (map fst entries)
        \<and> (key, Item item) \<in> set entries \<longrightarrow>
        (\<exists>r1 r2. shown_row (reconcile now1 (Some entries) st) key = Some r1
           \<and> shown_row (reconcile now2 (Some entries) st) key = Some r2
           \<and> r1\<lparr>timestamp := JUndefined\<rparr> = r2\<lparr>timestamp := JUndefined\<rparr>
           \<and> (ToBoolean (item_timestamp item) \<longrightarrow>
                r1 = r2 \<and> timestamp r1 = item_timestamp item)
           \<and> (\<not> ToBoolean (item_timestamp item) \<longrightarrow>
                timestamp r1 = JStr (now1 key) \<and> timestamp r2 = JStr (now2 key)))"
    by blast
  show ?thesis
    by (intro conjI) (rule blank, rule each', rule same)
qed

theorem deterministic_but_for_clock_witness:
  "shown_row (reconcile clock1
      (Some [(''SBIN'', Item (full_quote 101 99 102 98 99 4000)),
             (''TCS'', Item (quote (JNum (Fin 101)) (JNum (Fin 100)) (JNum (Fin 102)) (JNum (Fin 99))))])
      example_table) ''SBIN''
   = shown_row (reconcile clock2
      (Some [(''SBIN'', Item (full_quote 101 99 102 98 99 4000)),
             (''TCS'', Item (quote (JNum (Fin 101)) (JNum (Fin 100)) (JNum (Fin 102)) (JNum (Fin 99))))])
      example_table) ''SBIN''
   \<and> map_option timestamp (shown_row (reconcile clock1
      (Some [(''SBIN'', Item (full_quote 101 99 102 98 99 4000)),
             (''TCS'', Item (quote (JNum (Fin 101)) (JNum (Fin 100)) (JNum (Fin 102)) (JNum (Fin 99))))])
      example_table) ''TCS'') = Some (JStr ''2024-01-01T09:15:01.000Z'')
   \<and> map_option timestamp (shown_row (reconcile clock2
      (Some [(''SBIN'', Item (full_quote 101 99 102 98 99 4000)),
             (''TCS'', Item (quote (JNum (Fin 101)) (JNum (Fin 100)) (JNum (Fin 102)) (JNum (Fin 99))))])
      example_table) ''TCS'') = Some (JStr ''2024-01-01T09:15:02.000Z'')
   \<and> reconcile clock1 (Some [(''SBIN'', Item (full_quote 101 99 102 98 99 4000))]) example_table =
     reconcile clock2 (Some [(''SBIN'', Item (full_quote 101 99 102 98 99 4000))]) example_table"
proof -
  let ?S = "[(''SBIN'', Item (full_quote 101 99 102 98 99 4000)),
             (''TCS'', Item (quote (JNum (Fin 101)) (JNum (Fin 100)) (JNum (Fin 102)) (JNum (Fin 99))))]"
  have sbin: "shown_row (reconcile clock1 (Some ?S) example_table) ''SBIN''
              = shown_row (reconcile clock2 (Some ?S) example_table) ''SBIN''"
    using deterministic_but_for_clock
      [of clock1 "Some ?S" example_table clock2 ?S "''SBIN''" "full_quote 101 99 102 98 99 4000"]
    by (auto simp: full_quote_def)
  have tcs: "map_option timestamp (shown_row (reconcile clock1 (Some ?S) example_table) ''TCS'')
               = Some (JStr ''2024-01-01T09:15:01.000Z'')
             \<and> map_option timestamp (shown_row (reconcile clock2 (Some ?S) example_table) ''TCS'')
               = Some (JStr ''2024-01-01T09:15:02.000Z'')"
    using deterministic_but_for_clock
      [of clock1 "Some ?S" example_table clock2 ?S "''TCS''"
          "quote (JNum (Fin 101)) (JNum (Fin 100)) (JNum (Fin 102)) (JNum (Fin 99))"]
    by (auto simp: quote_def clock1_def clock2_def)
  have all: "reconcile clock1 (Some [(''SBIN'', Item (full_quote 101 99 102 98 99 4000))]) example_table =
     reconcile clock2 (Some [(''SBIN'', Item (full_quote 101 99 102 98 99 4000))]) example_table"
    using deterministic_but_for_clock
      [of clock1 "Some ?S" example_table clock2
          "[(''SBIN'', Item (full_quote 101 99 102 98 99 4000))]" "''SBIN''"
          "full_quote 101 99 102 98 99 4000"]
    by (simp add: full_quote_def)
  from sbin tcs all show ?thesis by simp
qed

end
